theory Spec2Isabelle
  imports Main "HOL-Library.Sublist" "HOL-Library.Word"
begin

text \<open>
  A model of the request guard (\<open>auth/auth.guard.ts\<close> with the helpers under
  \<open>auth/utils\<close>) and of the secrets providers (\<open>secrets/providers\<close>) of nest-common,
  followed by the properties proved of them. Exceptions are values of a sum type, the
  mutable request and the provider caches are passed and returned, and what lies outside
  the repository (the secrets service seen from the guard, the cloud SDK clients, the
  clock, the secrets file) is an argument of the function that uses it.
\<close>

section \<open>Strings as the guard sees them\<close>

text \<open>
  Header names and values reach the guard as JavaScript strings whose code units
  are below 256 (Node decodes header bytes as Latin-1), so a string is modelled as a
  list of \<^typ>\<open>char\<close>, one \<^typ>\<open>char\<close> per code unit. Secret names and values are
  modelled the same way.
\<close>

definition is_lower :: "char \<Rightarrow> bool" where
  \<comment> \<open>the character class \<open>[a-z]\<close>\<close>
  "is_lower c = ((97::nat) \<le> of_char c \<and> of_char c \<le> (122::nat))"

definition is_digit :: "char \<Rightarrow> bool" where
  \<comment> \<open>the character class \<open>\d\<close>\<close>
  "is_digit c = ((48::nat) \<le> of_char c \<and> of_char c \<le> (57::nat))"

definition is_js_space :: "char \<Rightarrow> bool" where
  \<comment> \<open>what \<open>String.prototype.trim\<close> strips, among the code units below 256:
      TAB, LF, VT, FF, CR, SP and NBSP\<close>
  "is_js_space c = (of_char c \<in> {9, 10, 11, 12, 13, 32, 160 :: nat})"

definition toUpperCase_char :: "char \<Rightarrow> char" where
  \<comment> \<open>\<open>letter.toUpperCase()\<close> on a letter of \<open>[a-z]\<close>; other code units are kept\<close>
  "toUpperCase_char c = (if is_lower c then char_of (of_char c - (32::nat)) else c)"

definition toUpperCase :: "string \<Rightarrow> string" where
  \<comment> \<open>\<open>s.toUpperCase()\<close> on ASCII; the Latin-1 letters above 127, which JavaScript would
      map as well, are kept\<close>
  "toUpperCase s = map toUpperCase_char s"

definition trim :: "string \<Rightarrow> string" where
  "trim s = rev (dropWhile is_js_space (rev (dropWhile is_js_space s)))"

fun split_on :: "char \<Rightarrow> string \<Rightarrow> string list" where
  \<comment> \<open>\<open>value.split(sep)\<close> for a one-character separator\<close>
  "split_on sep [] = [[]]"
| "split_on sep (c # cs) =
     (if c = sep then [] # split_on sep cs
      else (case split_on sep cs of
              [] \<Rightarrow> [[c]]
            | w # ws \<Rightarrow> (c # w) # ws))"

fun join_with :: "char \<Rightarrow> string list \<Rightarrow> string" where
  \<comment> \<open>\<open>parts.join(sep)\<close>\<close>
  "join_with sep [] = []"
| "join_with sep [w] = w"
| "join_with sep (w # v # ws) = w @ sep # join_with sep (v # ws)"

fun str_includes :: "string \<Rightarrow> string \<Rightarrow> bool" where
  \<comment> \<open>\<open>s.includes(sub)\<close>\<close>
  "str_includes [] sub = (sub = [])"
| "str_includes (c # cs) sub = (prefix sub (c # cs) \<or> str_includes cs sub)"

definition startsWith :: "string \<Rightarrow> string \<Rightarrow> bool" where
  "startsWith s p = prefix p s"

fun replace_all :: "char \<Rightarrow> char \<Rightarrow> string \<Rightarrow> string" where
  \<comment> \<open>\<open>s.replace(/a/g, 'b')\<close> for single characters\<close>
  "replace_all a b [] = []"
| "replace_all a b (c # cs) = (if c = a then b else c) # replace_all a b cs"

datatype js_number = Finite nat | Infinity
  \<comment> \<open>the Number values that \<open>parseInt\<close> returns on a string of decimal digits: a
      non-negative double that is an integer, or \<open>Infinity\<close>\<close>

definition digit_value :: "char \<Rightarrow> nat" where
  "digit_value c = of_char c - 48"

definition decimal_value :: "string \<Rightarrow> nat" where
  \<comment> \<open>the mathematical integer that \<open>parseInt\<close> reads off the digits, left to right\<close>
  "decimal_value s = foldl (\<lambda>acc c. 10 * acc + digit_value c) 0 s"

fun excess_bits :: "nat \<Rightarrow> nat" where
  \<comment> \<open>how many low bits of \<open>n\<close> do not fit into the 53-bit significand of a double\<close>
  "excess_bits n = (if n < 2 ^ 53 then 0 else Suc (excess_bits (n div 2)))"

declare excess_bits.simps [simp del]

definition toNumber :: "nat \<Rightarrow> js_number" where
  \<comment> \<open>the Number value of a non-negative integer (IEEE 754 binary64, round to nearest, ties
      to even): the significand keeps 53 bits, the bits below are rounded away, and a result
      of \<open>2^1024\<close> or more is \<open>Infinity\<close>\<close>
  "toNumber n =
     (let e = excess_bits n;
          q = n div 2 ^ e;
          r = n mod 2 ^ e;
          q' = (if 2 ^ e < 2 * r \<or> (2 * r = 2 ^ e \<and> odd q) then q + 1 else q)
      in if 2 ^ 1024 \<le> q' * 2 ^ e then Infinity else Finite (q' * 2 ^ e))"

definition parseInt10 :: "string \<Rightarrow> js_number" where
  \<comment> \<open>\<open>parseInt(value, 10)\<close> on a string of decimal digits: the Number value of the
      integer the digits denote. ECMAScript lets an implementation read the digits after
      the 20th as zeros; V8, which runs the guard, rounds the exact integer, as here\<close>
  "parseInt10 s = toNumber (decimal_value s)"

section \<open>Claim extraction: \<open>to-camel-case.ts\<close>, \<open>parse-header-value.ts\<close>\<close>

fun toCamelCase :: "string \<Rightarrow> string" where
  \<comment> \<open>\<open>str.replace(/-([a-z])/g, (_, letter) => letter.toUpperCase())\<close>: the scan goes
      left to right; a hyphen followed by a letter of \<open>[a-z]\<close> is a match, replaced by
      the upper-cased letter, and the scan resumes after the match\<close>
  "toCamelCase (c # d # cs) =
     (if c = CHR ''-'' \<and> is_lower d then toUpperCase_char d # toCamelCase cs
      else c # toCamelCase (d # cs))"
| "toCamelCase cs = cs"

datatype claim_value =
    VString string
  | VArray "string list"
  | VNumber js_number
  | VBool bool
  | VUndefined


definition hyphen_rule :: "char option \<Rightarrow> char \<Rightarrow> char option \<Rightarrow> string" where
  \<comment> \<open>the conversion as the documentation words it, one position at a time: what a
      character contributes, given the character before it and the one after it\<close>
  "hyphen_rule before c after =
     (if c = CHR ''-'' \<and> (case after of Some d \<Rightarrow> is_lower d | None \<Rightarrow> False) then []
      else if before = Some (CHR ''-'') \<and> is_lower c then [toUpperCase_char c]
      else [c])"

fun camel_by_position :: "char option \<Rightarrow> string \<Rightarrow> string" where
  "camel_by_position before [] = []"
| "camel_by_position before [c] = hyphen_rule before c None"
| "camel_by_position before (c # d # cs) =
     hyphen_rule before c (Some d) @ camel_by_position (Some c) (d # cs)"

section \<open>The guard: \<open>auth.guard.ts\<close>\<close>

text \<open>
  The request is the mutable object the guard works on: \<open>canActivate\<close> returns it with
  \<open>user\<close> or \<open>service\<close> set, or the exception thrown. \<open>SecretsService.get\<close> is a
  function from the key to the value it resolves to (\<open>Inr\<close>; \<open>None\<close> for null) or the
  message of the error it rejects with (\<open>Inl\<close>). Every call of \<open>secrets.get\<close> and of
  \<open>timingSafeEqual\<close> is recorded, in order, in the list of events returned with the
  result. The reflector's answer for \<open>IS_PUBLIC_KEY\<close> is the argument \<open>isPublic\<close>.
\<close>

type_synonym byte = "8 word"

type_synonym kong_user = "(string \<times> claim_value) list"

record request =
  req_url :: "string option"
  req_path :: "string option"
  req_method :: "string option"
  req_headers :: "(string \<times> string) list"
  req_user :: "kong_user option"
  req_service :: "string option"

datatype guard_error =
    UnauthorizedException string
  | ForbiddenException string
  | SecretsError string
  | RangeError string

datatype guard_event =
    SecretsGet string
  | TimingSafeEqual "byte list" "byte list"

type_synonym secrets_service = "string \<Rightarrow> string + string option"

definition header :: "request \<Rightarrow> string \<Rightarrow> string option" where
  \<comment> \<open>\<open>request.headers[name]\<close>\<close>
  "header request name = map_of (req_headers request) name"

definition truthy :: "string option \<Rightarrow> bool" where
  \<comment> \<open>JavaScript truthiness of \<open>string | undefined\<close>: the empty string is falsy\<close>
  "truthy v = (case v of None \<Rightarrow> False | Some s \<Rightarrow> s \<noteq> [])"

definition or_else :: "string option \<Rightarrow> string option \<Rightarrow> string option" where
  \<comment> \<open>\<open>a || b\<close>\<close>
  "or_else a b = (if truthy a then a else b)"

definition utf8 :: "char \<Rightarrow> byte list" where
  "utf8 c =
     (let n = (of_char c :: nat)
      in if n < 128 then [word_of_nat n]
         else [word_of_nat (192 + n div 64), word_of_nat (128 + n mod 64)])"

definition Buffer_from :: "string \<Rightarrow> byte list" where
  \<comment> \<open>\<open>Buffer.from(s)\<close>: the UTF-8 bytes of the string\<close>
  "Buffer_from s = concat (map utf8 s)"

definition timingSafeEqual :: "byte list \<Rightarrow> byte list \<Rightarrow> guard_error + bool" where
  \<comment> \<open>\<open>crypto.timingSafeEqual\<close> of Node: it throws on buffers of different byte
      length and compares the bytes otherwise\<close>
  "timingSafeEqual a b =
     (if length a \<noteq> length b
      then Inl (RangeError ''Input buffers must have the same byte length'')
      else Inr (a = b))"

definition infrastructure_endpoint :: "string option \<Rightarrow> bool" where
  \<comment> \<open>the test at the head of \<open>verifyKongTrustHeader\<close>: \<open>if (path) { if (path.includes(...) || ...) }\<close>\<close>
  "infrastructure_endpoint path =
     (case path of
        None \<Rightarrow> False
      | Some p \<Rightarrow>
          p \<noteq> [] \<and>
          (str_includes p ''/.well-known/'' \<or> p = ''/health''
           \<or> startsWith p ''/health/'' \<or> p = ''/metrics''))"

definition verifyKongTrustHeader ::
  "secrets_service \<Rightarrow> request \<Rightarrow> (guard_error + unit) \<times> guard_event list" where
  "verifyKongTrustHeader secrets request =
     (let path = or_else (req_url request) (req_path request)
      in if infrastructure_endpoint path then (Inr (), [])
         else
           (case header request ''x-kong-trust'' of
              None \<Rightarrow> (Inl (UnauthorizedException ''Unauthorized request''), [])
            | Some kongTrustHeader \<Rightarrow>
                if kongTrustHeader = [] then (Inl (UnauthorizedException ''Unauthorized request''), [])
                else
                  (case secrets ''KONG_TRUST_TOKEN'' of
                     Inl msg \<Rightarrow> (Inl (SecretsError msg), [SecretsGet ''KONG_TRUST_TOKEN''])
                   | Inr expectedToken \<Rightarrow>
                       if \<not> truthy expectedToken
                       then (Inl (UnauthorizedException ''Authentication configuration error''),
                             [SecretsGet ''KONG_TRUST_TOKEN''])
                       else
                         (let provided = Buffer_from kongTrustHeader;
                              expected = Buffer_from (case expectedToken of Some t \<Rightarrow> t | None \<Rightarrow> [])
                          in if length provided \<noteq> length expected
                             then (Inl (UnauthorizedException ''Unauthorized request''),
                                   [SecretsGet ''KONG_TRUST_TOKEN''])
                             else
                               (case timingSafeEqual provided expected of
                                  Inl e \<Rightarrow>
                                    (Inl e, [SecretsGet ''KONG_TRUST_TOKEN'',
                                             TimingSafeEqual provided expected])
                                | Inr same \<Rightarrow>
                                    if \<not> same
                                    then (Inl (UnauthorizedException ''Unauthorized request''),
                                          [SecretsGet ''KONG_TRUST_TOKEN'',
                                           TimingSafeEqual provided expected])
                                    else (Inr (), [SecretsGet ''KONG_TRUST_TOKEN'',
                                                   TimingSafeEqual provided expected]))))))"

definition validateServiceApiKey ::
  "secrets_service \<Rightarrow> request \<Rightarrow> string \<Rightarrow> (guard_error + request) \<times> guard_event list" where
  "validateServiceApiKey secrets request apiKey =
     (case secrets ''API_KEY'' of
        Inl msg \<Rightarrow> (Inl (SecretsError msg), [SecretsGet ''API_KEY''])
      | Inr validApiKey \<Rightarrow>
          if \<not> truthy validApiKey
          then (Inl (UnauthorizedException ''Server API key is not configured''),
                [SecretsGet ''API_KEY''])
          else
            (let provided = Buffer_from apiKey;
                 expected = Buffer_from (case validApiKey of Some k \<Rightarrow> k | None \<Rightarrow> [])
             in if length provided \<noteq> length expected
                then (Inl (ForbiddenException ''Invalid API key''), [SecretsGet ''API_KEY''])
                else
                  (case timingSafeEqual provided expected of
                     Inl e \<Rightarrow> (Inl e, [SecretsGet ''API_KEY'', TimingSafeEqual provided expected])
                   | Inr same \<Rightarrow>
                       if \<not> same
                       then (Inl (ForbiddenException ''Invalid API key''),
                             [SecretsGet ''API_KEY'', TimingSafeEqual provided expected])
                       else
                         (Inr (request\<lparr>req_service :=
                                  or_else (header request ''x-service-name'') (Some ''internal'')\<rparr>),
                          [SecretsGet ''API_KEY'', TimingSafeEqual provided expected]))))"

definition parseValue :: "string \<Rightarrow> claim_value" where
  \<comment> \<open>the guard's private copy of \<open>parseHeaderValue\<close>\<close>
  "parseValue v =
     (if CHR '','' \<in> set v then VArray (map trim (split_on (CHR '','') v))
      else if v \<noteq> [] \<and> list_all is_digit v then VNumber (parseInt10 v)
      else if v = ''true'' then VBool True
      else if v = ''false'' then VBool False
      else VString v)"

fun set_prop :: "(string \<times> 'v) list \<Rightarrow> string \<Rightarrow> 'v \<Rightarrow> (string \<times> 'v) list" where
  \<comment> \<open>\<open>object[key] = value\<close>: an existing property keeps its place, a new one is added last\<close>
  "set_prop [] k v = [(k, v)]"
| "set_prop ((k', v') # ps) k v = (if k' = k then (k, v) # ps else (k', v') # set_prop ps k v)"

definition JWT_CLAIM_PREFIX :: string where
  "JWT_CLAIM_PREFIX = ''x-jwt-claim-''"

definition extractUserFromHeaders ::
  "(string \<Rightarrow> kong_user option) \<Rightarrow> (string \<times> string) list \<Rightarrow> kong_user" where
  \<comment> \<open>\<open>parseUserinfo\<close> stands for \<open>JSON.parse(Buffer.from(userinfo, 'base64').toString('utf-8'))\<close>,
      given as the properties of the parsed claims in key order, \<open>None\<close> when the \<open>try\<close> block throws\<close>
  "extractUserFromHeaders parseUserinfo hs =
     (let legacy =
            foldl (\<lambda>user key.
                     if startsWith key JWT_CLAIM_PREFIX
                     then (case map_of hs key of
                             None \<Rightarrow> user
                           | Some v \<Rightarrow>
                               set_prop user (toCamelCase (drop (length JWT_CLAIM_PREFIX) key))
                                 (parseValue v))
                     else user)
              [(''id'',
                case or_else (map_of hs ''x-consumer-id'') (map_of hs ''x-credential-identifier'') of
                  None \<Rightarrow> VUndefined
                | Some userId \<Rightarrow> VString userId)]
              (map fst hs)
      in case map_of hs ''x-userinfo'' of
           None \<Rightarrow> legacy
         | Some userinfo \<Rightarrow>
             if userinfo = [] then legacy
             else
               (case parseUserinfo userinfo of
                  None \<Rightarrow> legacy
                | Some claims \<Rightarrow>
                    foldl (\<lambda>user key.
                             if key \<noteq> ''sub''
                             then (case map_of claims key of
                                     None \<Rightarrow> user
                                   | Some v \<Rightarrow> set_prop user key v)
                             else user)
                      [(''id'', case map_of claims ''sub'' of None \<Rightarrow> VUndefined | Some v \<Rightarrow> v)]
                      (map fst claims)))"

definition canActivate ::
  "secrets_service \<Rightarrow> (string \<Rightarrow> kong_user option) \<Rightarrow> bool \<Rightarrow> request
     \<Rightarrow> (guard_error + request) \<times> guard_event list" where
  "canActivate secrets parseUserinfo isPublic request0 =
     (let apiKey = header request0 ''x-api-key'';
          kongTrustHeader = header request0 ''x-kong-trust'';
          cameFromKong = truthy kongTrustHeader;
          (checked, events) =
            (if cameFromKong
             then (case verifyKongTrustHeader secrets request0 of
                     (Inl e, evs) \<Rightarrow> (Inl e, evs)
                   | (Inr _, evs) \<Rightarrow> (Inr request0, evs))
             else if truthy apiKey
             then validateServiceApiKey secrets request0 (case apiKey of Some k \<Rightarrow> k | None \<Rightarrow> [])
             else (Inr request0, []))
      in case checked of
           Inl e \<Rightarrow> (Inl e, events)
         | Inr request \<Rightarrow>
             if isPublic then (Inr request, events)
             else
               (let consumerId = header request ''x-consumer-id'';
                    consumerUsername = header request ''x-consumer-username'';
                    credentialIdentifier = header request ''x-credential-identifier'';
                    userinfo = header request ''x-userinfo'';
                    hasKongHeaders =
                      (truthy consumerId \<or> truthy consumerUsername
                       \<or> truthy credentialIdentifier \<or> truthy userinfo)
                in if hasKongHeaders
                   then
                     (if truthy consumerId \<or> truthy credentialIdentifier \<or> truthy userinfo
                      then (Inr (request\<lparr>req_user :=
                                   Some (extractUserFromHeaders parseUserinfo (req_headers request))\<rparr>),
                            events)
                      else if truthy consumerUsername
                      then (Inr (request\<lparr>req_service := consumerUsername\<rparr>), events)
                      else (Inr request, events))
                   else if cameFromKong \<and> truthy apiKey
                   then (Inr (request\<lparr>req_service := Some ''partner''\<rparr>), events)
                   else if truthy apiKey then (Inr request, events)
                   else (Inl (UnauthorizedException ''No authentication provided''), events)))"

subsection \<open>Concrete requests and secrets used below\<close>

definition jwks_request :: request where
  "jwks_request =
     \<lparr>req_url = Some ''/auth/.well-known/jwks.json'', req_path = None, req_method = None,
      req_headers = [(''x-kong-trust'', ''invalid-token'')], req_user = None, req_service = None\<rparr>"

definition mismatch_request :: request where
  "mismatch_request =
     \<lparr>req_url = Some ''/orders'', req_path = None, req_method = Some ''GET'',
      req_headers = [(''x-kong-trust'', ''invalid-token''), (''x-api-key'', ''short'')],
      req_user = None, req_service = None\<rparr>"

definition test_secrets :: secrets_service where
  "test_secrets key =
     (if key = ''KONG_TRUST_TOKEN'' then Inr (Some ''test-kong-trust-token-12345'')
      else if key = ''API_KEY'' then Inr (Some ''direct-service-api-key'')
      else Inl ''not found'')"

definition no_userinfo :: "string \<Rightarrow> kong_user option" where
  \<comment> \<open>a request without a usable \<open>x-userinfo\<close> header: nothing decodes\<close>
  "no_userinfo userinfo = None"

definition consumer_request :: request where
  "consumer_request =
     \<lparr>req_url = Some ''/orders'', req_path = None, req_method = Some ''GET'',
      req_headers = [(''x-consumer-id'', ''user-123''), (''x-jwt-claim-tenant-id'', ''tenant-456'')],
      req_user = None, req_service = None\<rparr>"

definition forwarded_request :: request where
  "forwarded_request =
     \<lparr>req_url = Some ''/orders'', req_path = None, req_method = Some ''GET'',
      req_headers = [(''x-api-key'', ''direct-service-api-key''), (''x-consumer-id'', ''user-123'')],
      req_user = None, req_service = None\<rparr>"

section \<open>Cloud secrets providers: what the three classes share\<close>

text \<open>
  Time is \<open>Date.now()\<close> in milliseconds. An operation that reads the clock takes the
  reading as an argument; \<open>get\<close> reads it twice (in \<open>getFromCache\<close> before the store is
  asked, in \<open>setCache\<close> after), so it takes two readings.

  The secret store is outside the repository. Each SDK call is an oracle that sees the
  calls made so far and its own arguments and answers with a value or with the error it
  throws; the provider state records every call it makes.
\<close>

record cache_entry =
  ce_value :: string
  ce_expiresAt :: nat

type_synonym cache = "string \<rightharpoonup> cache_entry"

record store_error =
  err_code :: "nat option"
  err_message :: string

record cloud_config =
  projectName :: string
  serviceName :: string
  gcpProjectId :: string

record 'c provider_state =
  p_cache :: cache
  p_calls :: "'c list"

definition CACHE_TTL_MS :: nat where
  "CACHE_TTL_MS = 5 * 60 * 1000"

definition getFromCache :: "nat \<Rightarrow> string \<Rightarrow> cache \<Rightarrow> string option \<times> cache" where
  \<comment> \<open>the same text in \<open>gcp.provider.ts\<close>, \<open>aws.provider.ts\<close> and \<open>azure.provider.ts\<close>\<close>
  "getFromCache now key c =
     (case c key of
        None \<Rightarrow> (None, c)
      | Some entry \<Rightarrow>
          if now > ce_expiresAt entry then (None, c(key := None))
          else (Some (ce_value entry), c))"

definition invalidateCache :: "string \<Rightarrow> cache \<Rightarrow> cache" where
  "invalidateCache key c = c(key := None)"

definition buildSecretName :: "cloud_config \<Rightarrow> string \<Rightarrow> string \<Rightarrow> string" where
  \<comment> \<open>GCP and AWS: \<open>`${this.projectName}-${scope}-${key}`\<close>\<close>
  "buildSecretName cfg key scope = projectName cfg @ ''-'' @ scope @ ''-'' @ key"

fun indexOf :: "char \<Rightarrow> string \<Rightarrow> nat option" where
  "indexOf c [] = None"
| "indexOf c (x # xs) = (if x = c then Some 0 else map_option Suc (indexOf c xs))"

definition extractKeyFromSecretName :: "cloud_config \<Rightarrow> string \<Rightarrow> string" where
  \<comment> \<open>AWS; Azure applies \<open>reverseTransformKey\<close> to the result\<close>
  "extractKeyFromSecretName cfg secretName =
     (let withoutProject = drop (length (projectName cfg) + 1) secretName
      in if startsWith withoutProject (serviceName cfg @ ''-'')
         then drop (length (serviceName cfg) + 1) withoutProject
         else if startsWith withoutProject ''shared-''
         then drop (length ''shared-'') withoutProject
         else (case indexOf (CHR ''-'') withoutProject of
                 Some firstDashIndex \<Rightarrow> drop (firstDashIndex + 1) withoutProject
               | None \<Rightarrow> withoutProject))"

section \<open>\<open>gcp.provider.ts\<close>\<close>

datatype gcp_call =
    AccessSecretVersion string
  | GetSecret string
  | CreateSecret string string "(string \<times> string) list"
  | AddSecretVersion string string
  | DeleteSecret string
  | ListSecrets string string

record gcp_client =
  accessSecretVersion :: "gcp_call list \<Rightarrow> string \<Rightarrow> store_error + string option"
  getSecret :: "gcp_call list \<Rightarrow> string \<Rightarrow> store_error + unit"
  createSecret :: "gcp_call list \<Rightarrow> string \<Rightarrow> string \<Rightarrow> (string \<times> string) list \<Rightarrow> store_error + unit"
  addSecretVersion :: "gcp_call list \<Rightarrow> string \<Rightarrow> string \<Rightarrow> store_error + unit"
  deleteSecret :: "gcp_call list \<Rightarrow> string \<Rightarrow> store_error + unit"
  listSecrets :: "gcp_call list \<Rightarrow> string \<Rightarrow> string \<Rightarrow> store_error + string option list"

type_synonym gcp_state = "gcp_call provider_state"

definition isUrlValue :: "string \<Rightarrow> bool" where
  "isUrlValue v = (startsWith v ''https://'' \<or> startsWith v ''http://'')"

definition gcp_setCache :: "nat \<Rightarrow> string \<Rightarrow> string \<Rightarrow> cache \<Rightarrow> cache" where
  "gcp_setCache now key v c =
     (if isUrlValue v then c
      else c(key \<mapsto> \<lparr>ce_value = v, ce_expiresAt = now + CACHE_TTL_MS\<rparr>))"

definition gcp_record :: "gcp_call \<Rightarrow> gcp_state \<Rightarrow> gcp_state" where
  "gcp_record call st = st\<lparr>p_calls := p_calls st @ [call]\<rparr>"

definition fetchSecretFromGCP ::
  "cloud_config \<Rightarrow> gcp_client \<Rightarrow> string \<Rightarrow> gcp_state \<Rightarrow> string option \<times> gcp_state" where
  "fetchSecretFromGCP cfg client secretName st =
     (let parent = ''projects/'' @ gcpProjectId cfg;
          secretId = secretName;
          versionName = parent @ ''/secrets/'' @ secretId @ ''/versions/latest'';
          st' = gcp_record (AccessSecretVersion versionName) st
      in case accessSecretVersion client (p_calls st) versionName of
           Inr None \<Rightarrow> (None, st')
         | Inr (Some payload) \<Rightarrow> (Some payload, st')
         | Inl error \<Rightarrow>
             if err_code error = Some 5 then (None, st')
             else (None, st'))"

definition gcp_get ::
  "cloud_config \<Rightarrow> gcp_client \<Rightarrow> nat \<Rightarrow> nat \<Rightarrow> string \<Rightarrow> gcp_state
     \<Rightarrow> string option \<times> gcp_state" where
  "gcp_get cfg client now_read now_write key st =
     (case getFromCache now_read key (p_cache st) of
        (Some cached, c) \<Rightarrow> (Some cached, st\<lparr>p_cache := c\<rparr>)
      | (None, c) \<Rightarrow>
          (let st0 = st\<lparr>p_cache := c\<rparr>;
               (v, st1) =
                 (if key = ''API_KEY''
                  then
                    (let sharedKey =
                           replace_all (CHR ''-'') (CHR ''_'') (toUpperCase (serviceName cfg))
                           @ ''_API_KEY''
                     in fetchSecretFromGCP cfg client (buildSecretName cfg sharedKey ''shared'') st0)
                  else
                    (case fetchSecretFromGCP cfg client
                            (buildSecretName cfg key (serviceName cfg)) st0 of
                       (None, s) \<Rightarrow>
                         fetchSecretFromGCP cfg client (buildSecretName cfg key ''shared'') s
                     | (Some found, s) \<Rightarrow> (Some found, s)))
           in case v of
                Some found \<Rightarrow> (Some found, st1\<lparr>p_cache := gcp_setCache now_write key found (p_cache st1)\<rparr>)
              | None \<Rightarrow> (None, st1)))"

definition gcp_exists ::
  "cloud_config \<Rightarrow> gcp_client \<Rightarrow> string \<Rightarrow> gcp_state \<Rightarrow> bool \<times> gcp_state" where
  "gcp_exists cfg client key st =
     (let parent = ''projects/'' @ gcpProjectId cfg;
          serviceScopedName = parent @ ''/secrets/'' @ buildSecretName cfg key (serviceName cfg);
          st1 = gcp_record (GetSecret serviceScopedName) st
      in case getSecret client (p_calls st) serviceScopedName of
           Inr _ \<Rightarrow> (True, st1)
         | Inl _ \<Rightarrow>
             (let sharedScopedName = parent @ ''/secrets/'' @ buildSecretName cfg key ''shared'';
                  st2 = gcp_record (GetSecret sharedScopedName) st1
              in case getSecret client (p_calls st1) sharedScopedName of
                   Inr _ \<Rightarrow> (True, st2)
                 | Inl _ \<Rightarrow> (False, st2)))"

definition toLowerCase_char :: "char \<Rightarrow> char" where
  "toLowerCase_char c =
     (if (65::nat) \<le> of_char c \<and> of_char c \<le> (90::nat) then char_of (of_char c + (32::nat)) else c)"

definition sanitizeLabelKey :: "string \<Rightarrow> string" where
  \<comment> \<open>\<open>key.toLowerCase().replace(/[^a-z0-9-_]/g, '-').replace(/^[^a-z]/, 'x')\<close>\<close>
  "sanitizeLabelKey key =
     (let lowered = map toLowerCase_char key;
          dashed = map (\<lambda>c. if is_lower c \<or> is_digit c \<or> c = CHR ''-'' \<or> c = CHR ''_''
                             then c else CHR ''-'') lowered
      in case dashed of
           [] \<Rightarrow> []
         | c # cs \<Rightarrow> (if is_lower c then c else CHR ''x'') # cs)"

definition gcp_buildLabels :: "cloud_config \<Rightarrow> (string \<times> string) list option \<Rightarrow> (string \<times> string) list" where
  "gcp_buildLabels cfg metadata =
     (let labels = [(''project-name'', projectName cfg), (''service-name'', serviceName cfg),
                    (''managed-by'', ''tsdevstack'')]
      in case metadata of
           None \<Rightarrow> labels
         | Some entries \<Rightarrow> foldl (\<lambda>ls (k, v). set_prop ls (sanitizeLabelKey k) v) labels entries)"

definition gcp_set ::
  "cloud_config \<Rightarrow> gcp_client \<Rightarrow> string \<Rightarrow> string \<Rightarrow> (string \<times> string) list option \<Rightarrow> gcp_state
     \<Rightarrow> (string + unit) \<times> gcp_state" where
  "gcp_set cfg client key v metadata st =
     (let secretName = buildSecretName cfg key (serviceName cfg);
          parent = ''projects/'' @ gcpProjectId cfg;
          secretId = secretName;
          wrapped = (\<lambda>error. ''Failed to set secret '' @ secretName @ '' in GCP: '' @ err_message error);
          (exists, st1) = gcp_exists cfg client key st;
          (created, st2) =
            (if \<not> exists
             then (createSecret client (p_calls st1) parent secretId (gcp_buildLabels cfg metadata),
                   gcp_record (CreateSecret parent secretId (gcp_buildLabels cfg metadata)) st1)
             else (Inr (), st1))
      in case created of
           Inl error \<Rightarrow> (Inl (wrapped error), st2)
         | Inr _ \<Rightarrow>
             (let st3 = gcp_record (AddSecretVersion (parent @ ''/secrets/'' @ secretId) v) st2
              in case addSecretVersion client (p_calls st2) (parent @ ''/secrets/'' @ secretId) v of
                   Inl error \<Rightarrow> (Inl (wrapped error), st3)
                 | Inr _ \<Rightarrow> (Inr (), st3\<lparr>p_cache := invalidateCache key (p_cache st3)\<rparr>)))"

definition gcp_remove ::
  "cloud_config \<Rightarrow> gcp_client \<Rightarrow> string \<Rightarrow> gcp_state \<Rightarrow> (string + unit) \<times> gcp_state" where
  "gcp_remove cfg client key st =
     (let secretName = buildSecretName cfg key (serviceName cfg);
          parent = ''projects/'' @ gcpProjectId cfg;
          secretId = secretName;
          st1 = gcp_record (DeleteSecret (parent @ ''/secrets/'' @ secretId)) st
      in case deleteSecret client (p_calls st) (parent @ ''/secrets/'' @ secretId) of
           Inl error \<Rightarrow>
             (Inl (''Failed to remove secret '' @ secretName @ '' from GCP: '' @ err_message error), st1)
         | Inr _ \<Rightarrow> (Inr (), st1\<lparr>p_cache := invalidateCache key (p_cache st1)\<rparr>))"

definition extractKeyFromSecretId :: "string \<Rightarrow> string" where
  \<comment> \<open>\<open>secretId.split('-').slice(2).join('-')\<close>\<close>
  "extractKeyFromSecretId secretId = join_with (CHR ''-'') (drop 2 (split_on (CHR ''-'') secretId))"

definition gcp_list ::
  "cloud_config \<Rightarrow> gcp_client \<Rightarrow> gcp_state \<Rightarrow> (string + string list) \<times> gcp_state" where
  "gcp_list cfg client st =
     (let parent = ''projects/'' @ gcpProjectId cfg;
          filter_expr = ''labels.project-name='' @ projectName cfg;
          st1 = gcp_record (ListSecrets parent filter_expr) st
      in case listSecrets client (p_calls st) parent filter_expr of
           Inl error \<Rightarrow> (Inl (''Failed to list secrets from GCP: '' @ err_message error), st1)
         | Inr secretsResponse \<Rightarrow>
             (Inr (concat (map (\<lambda>name.
                      if truthy name
                      then (let secretId = last (split_on (CHR ''/'') (case name of Some n \<Rightarrow> n | None \<Rightarrow> []))
                            in if secretId \<noteq> [] then [extractKeyFromSecretId secretId] else [])
                      else []) secretsResponse)),
              st1))"

section \<open>\<open>aws.provider.ts\<close>\<close>

datatype aws_call =
    GetSecretValueCommand string
  | CreateSecretCommand string string "(string \<times> string) list"
  | PutSecretValueCommand string string
  | DeleteSecretCommand string
  | DescribeSecretCommand string
  | ListSecretsCommand string "string option"

record aws_client =
  sendGetSecretValue :: "aws_call list \<Rightarrow> string \<Rightarrow> store_error + string option"
  sendCreateSecret :: "aws_call list \<Rightarrow> string \<Rightarrow> string \<Rightarrow> (string \<times> string) list \<Rightarrow> store_error + unit"
  sendPutSecretValue :: "aws_call list \<Rightarrow> string \<Rightarrow> string \<Rightarrow> store_error + unit"
  sendDeleteSecret :: "aws_call list \<Rightarrow> string \<Rightarrow> store_error + unit"
  sendDescribeSecret :: "aws_call list \<Rightarrow> string \<Rightarrow> store_error + unit"
  sendListSecrets ::
    "aws_call list \<Rightarrow> string \<Rightarrow> string option
       \<Rightarrow> store_error + (string option list option \<times> string option)"

type_synonym aws_state = "aws_call provider_state"

definition aws_setCache :: "nat \<Rightarrow> string \<Rightarrow> string \<Rightarrow> cache \<Rightarrow> cache" where
  "aws_setCache now key v c = c(key \<mapsto> \<lparr>ce_value = v, ce_expiresAt = now + CACHE_TTL_MS\<rparr>)"

definition aws_record :: "aws_call \<Rightarrow> aws_state \<Rightarrow> aws_state" where
  "aws_record call st = st\<lparr>p_calls := p_calls st @ [call]\<rparr>"

definition fetchSecretFromAWS ::
  "aws_client \<Rightarrow> string \<Rightarrow> aws_state \<Rightarrow> string option \<times> aws_state" where
  "fetchSecretFromAWS client secretName st =
     (let st' = aws_record (GetSecretValueCommand secretName) st
      in case sendGetSecretValue client (p_calls st) secretName of
           Inr secretString \<Rightarrow> (if truthy secretString then secretString else None, st')
         | Inl _ \<Rightarrow> (None, st'))"

definition aws_get ::
  "cloud_config \<Rightarrow> aws_client \<Rightarrow> nat \<Rightarrow> nat \<Rightarrow> string \<Rightarrow> aws_state
     \<Rightarrow> string option \<times> aws_state" where
  "aws_get cfg client now_read now_write key st =
     (case getFromCache now_read key (p_cache st) of
        (Some cached, c) \<Rightarrow> (Some cached, st\<lparr>p_cache := c\<rparr>)
      | (None, c) \<Rightarrow>
          (let st0 = st\<lparr>p_cache := c\<rparr>;
               (v, st1) =
                 (case fetchSecretFromAWS client (buildSecretName cfg key (serviceName cfg)) st0 of
                    (None, s) \<Rightarrow> fetchSecretFromAWS client (buildSecretName cfg key ''shared'') s
                  | (Some found, s) \<Rightarrow> (Some found, s))
           in case v of
                Some found \<Rightarrow> (Some found, st1\<lparr>p_cache := aws_setCache now_write key found (p_cache st1)\<rparr>)
              | None \<Rightarrow> (None, st1)))"

definition aws_exists ::
  "cloud_config \<Rightarrow> aws_client \<Rightarrow> string \<Rightarrow> aws_state \<Rightarrow> bool \<times> aws_state" where
  "aws_exists cfg client key st =
     (let serviceScopedName = buildSecretName cfg key (serviceName cfg);
          st1 = aws_record (DescribeSecretCommand serviceScopedName) st
      in case sendDescribeSecret client (p_calls st) serviceScopedName of
           Inr _ \<Rightarrow> (True, st1)
         | Inl _ \<Rightarrow>
             (let sharedScopedName = buildSecretName cfg key ''shared'';
                  st2 = aws_record (DescribeSecretCommand sharedScopedName) st1
              in case sendDescribeSecret client (p_calls st1) sharedScopedName of
                   Inr _ \<Rightarrow> (True, st2)
                 | Inl _ \<Rightarrow> (False, st2)))"

definition aws_buildTags :: "cloud_config \<Rightarrow> (string \<times> string) list option \<Rightarrow> (string \<times> string) list" where
  "aws_buildTags cfg metadata =
     [(''project-name'', projectName cfg), (''service-name'', serviceName cfg),
      (''managed-by'', ''tsdevstack'')]
     @ (case metadata of None \<Rightarrow> [] | Some entries \<Rightarrow> entries)"

definition aws_set ::
  "cloud_config \<Rightarrow> aws_client \<Rightarrow> string \<Rightarrow> string \<Rightarrow> (string \<times> string) list option \<Rightarrow> aws_state
     \<Rightarrow> (string + unit) \<times> aws_state" where
  "aws_set cfg client key v metadata st =
     (let secretName = buildSecretName cfg key (serviceName cfg);
          (secretExists, st1) = aws_exists cfg client key st;
          (sent, st2) =
            (if \<not> secretExists
             then (sendCreateSecret client (p_calls st1) secretName v (aws_buildTags cfg metadata),
                   aws_record (CreateSecretCommand secretName v (aws_buildTags cfg metadata)) st1)
             else (sendPutSecretValue client (p_calls st1) secretName v,
                   aws_record (PutSecretValueCommand secretName v) st1))
      in case sent of
           Inl error \<Rightarrow>
             (Inl (''Failed to set secret '' @ secretName @ '' in AWS: '' @ err_message error), st2)
         | Inr _ \<Rightarrow> (Inr (), st2\<lparr>p_cache := invalidateCache key (p_cache st2)\<rparr>))"

definition aws_remove ::
  "cloud_config \<Rightarrow> aws_client \<Rightarrow> string \<Rightarrow> aws_state \<Rightarrow> (string + unit) \<times> aws_state" where
  "aws_remove cfg client key st =
     (let secretName = buildSecretName cfg key (serviceName cfg);
          st1 = aws_record (DeleteSecretCommand secretName) st
      in case sendDeleteSecret client (p_calls st) secretName of
           Inl error \<Rightarrow>
             (Inl (''Failed to remove secret '' @ secretName @ '' from AWS: '' @ err_message error), st1)
         | Inr _ \<Rightarrow> (Inr (), st1\<lparr>p_cache := invalidateCache key (p_cache st1)\<rparr>))"

fun aws_list_pages ::
  "nat \<Rightarrow> cloud_config \<Rightarrow> aws_client \<Rightarrow> string option \<Rightarrow> string list \<Rightarrow> aws_state
     \<Rightarrow> ((string + string list) \<times> aws_state) option" where
  \<comment> \<open>the \<open>do ... while (nextToken)\<close> loop; the store decides how many pages there are, so the
      loop runs on fuel and \<open>None\<close> says the fuel ran out before the last page\<close>
  "aws_list_pages 0 cfg client nextToken secrets st = None"
| "aws_list_pages (Suc fuel) cfg client nextToken secrets st =
     (let st1 = aws_record (ListSecretsCommand (projectName cfg) nextToken) st
      in case sendListSecrets client (p_calls st) (projectName cfg) nextToken of
           Inl error \<Rightarrow> Some (Inl (''Failed to list secrets from AWS: '' @ err_message error), st1)
         | Inr (secretList, token) \<Rightarrow>
             (let secrets' =
                    secrets @
                    (case secretList of
                       None \<Rightarrow> []
                     | Some names \<Rightarrow>
                         concat (map (\<lambda>name. case name of
                                         None \<Rightarrow> []
                                       | Some n \<Rightarrow> if n \<noteq> [] then [extractKeyFromSecretName cfg n] else [])
                                 names))
              in if truthy token then aws_list_pages fuel cfg client token secrets' st1
                 else Some (Inr secrets', st1)))"

definition aws_list ::
  "nat \<Rightarrow> cloud_config \<Rightarrow> aws_client \<Rightarrow> aws_state \<Rightarrow> ((string + string list) \<times> aws_state) option" where
  "aws_list fuel cfg client st = aws_list_pages fuel cfg client None [] st"

section \<open>\<open>azure.provider.ts\<close>\<close>

datatype azure_call =
    AzGetSecret string
  | AzSetSecret string string "(string \<times> string) list"
  | AzBeginDeleteSecret string
  | AzPollUntilDone string
  | AzListPropertiesOfSecrets

record azure_client =
  az_getSecret :: "azure_call list \<Rightarrow> string \<Rightarrow> store_error + string option"
  az_setSecret :: "azure_call list \<Rightarrow> string \<Rightarrow> string \<Rightarrow> (string \<times> string) list \<Rightarrow> store_error + unit"
  az_beginDeleteSecret :: "azure_call list \<Rightarrow> string \<Rightarrow> store_error + unit"
  az_pollUntilDone :: "azure_call list \<Rightarrow> string \<Rightarrow> store_error + unit"
  az_listPropertiesOfSecrets ::
    "azure_call list \<Rightarrow> ((string \<times> string) list option \<times> string) list \<times> store_error option"

type_synonym azure_state = "azure_call provider_state"

definition transformKey :: "string \<Rightarrow> string" where
  "transformKey key = replace_all (CHR ''_'') (CHR ''-'') key"

definition reverseTransformKey :: "string \<Rightarrow> string" where
  "reverseTransformKey key = replace_all (CHR ''-'') (CHR ''_'') key"

definition azure_buildSecretName :: "cloud_config \<Rightarrow> string \<Rightarrow> string \<Rightarrow> string" where
  "azure_buildSecretName cfg key scope = projectName cfg @ ''-'' @ scope @ ''-'' @ transformKey key"

definition azure_extractKeyFromSecretName :: "cloud_config \<Rightarrow> string \<Rightarrow> string" where
  "azure_extractKeyFromSecretName cfg secretName =
     reverseTransformKey (extractKeyFromSecretName cfg secretName)"

definition azure_setCache :: "nat \<Rightarrow> string \<Rightarrow> string \<Rightarrow> cache \<Rightarrow> cache" where
  "azure_setCache now key v c = c(key \<mapsto> \<lparr>ce_value = v, ce_expiresAt = now + CACHE_TTL_MS\<rparr>)"

definition azure_record :: "azure_call \<Rightarrow> azure_state \<Rightarrow> azure_state" where
  "azure_record call st = st\<lparr>p_calls := p_calls st @ [call]\<rparr>"

definition fetchSecretFromAzure ::
  "azure_client \<Rightarrow> string \<Rightarrow> azure_state \<Rightarrow> string option \<times> azure_state" where
  "fetchSecretFromAzure client secretName st =
     (let st' = azure_record (AzGetSecret secretName) st
      in case az_getSecret client (p_calls st) secretName of
           Inr secretValue \<Rightarrow> (if truthy secretValue then secretValue else None, st')
         | Inl _ \<Rightarrow> (None, st'))"

definition azure_get ::
  "cloud_config \<Rightarrow> azure_client \<Rightarrow> nat \<Rightarrow> nat \<Rightarrow> string \<Rightarrow> azure_state
     \<Rightarrow> string option \<times> azure_state" where
  "azure_get cfg client now_read now_write key st =
     (case getFromCache now_read key (p_cache st) of
        (Some cached, c) \<Rightarrow> (Some cached, st\<lparr>p_cache := c\<rparr>)
      | (None, c) \<Rightarrow>
          (let st0 = st\<lparr>p_cache := c\<rparr>;
               (v, st1) =
                 (case fetchSecretFromAzure client
                         (azure_buildSecretName cfg key (serviceName cfg)) st0 of
                    (None, s) \<Rightarrow> fetchSecretFromAzure client (azure_buildSecretName cfg key ''shared'') s
                  | (Some found, s) \<Rightarrow> (Some found, s))
           in case v of
                Some found \<Rightarrow> (Some found, st1\<lparr>p_cache := azure_setCache now_write key found (p_cache st1)\<rparr>)
              | None \<Rightarrow> (None, st1)))"

definition azure_buildTags :: "cloud_config \<Rightarrow> (string \<times> string) list option \<Rightarrow> (string \<times> string) list" where
  "azure_buildTags cfg metadata =
     (let tags = [(''project-name'', projectName cfg), (''service-name'', serviceName cfg),
                  (''managed-by'', ''tsdevstack'')]
      in case metadata of
           None \<Rightarrow> tags
         | Some entries \<Rightarrow> foldl (\<lambda>ts (k, v). set_prop ts k v) tags entries)"

definition azure_set ::
  "cloud_config \<Rightarrow> azure_client \<Rightarrow> string \<Rightarrow> string \<Rightarrow> (string \<times> string) list option \<Rightarrow> azure_state
     \<Rightarrow> (string + unit) \<times> azure_state" where
  "azure_set cfg client key v metadata st =
     (let secretName = azure_buildSecretName cfg key (serviceName cfg);
          tags = azure_buildTags cfg metadata;
          st1 = azure_record (AzSetSecret secretName v tags) st
      in case az_setSecret client (p_calls st) secretName v tags of
           Inl error \<Rightarrow>
             (Inl (''Failed to set secret '' @ secretName @ '' in Azure: '' @ err_message error), st1)
         | Inr _ \<Rightarrow> (Inr (), st1\<lparr>p_cache := invalidateCache key (p_cache st1)\<rparr>))"

definition azure_remove ::
  "cloud_config \<Rightarrow> azure_client \<Rightarrow> string \<Rightarrow> azure_state \<Rightarrow> (string + unit) \<times> azure_state" where
  "azure_remove cfg client key st =
     (let secretName = azure_buildSecretName cfg key (serviceName cfg);
          wrapped = (\<lambda>error. ''Failed to remove secret '' @ secretName @ '' from Azure: ''
                              @ err_message error);
          st1 = azure_record (AzBeginDeleteSecret secretName) st
      in case az_beginDeleteSecret client (p_calls st) secretName of
           Inl error \<Rightarrow> (Inl (wrapped error), st1)
         | Inr _ \<Rightarrow>
             (let st2 = azure_record (AzPollUntilDone secretName) st1
              in case az_pollUntilDone client (p_calls st1) secretName of
                   Inl error \<Rightarrow> (Inl (wrapped error), st2)
                 | Inr _ \<Rightarrow> (Inr (), st2\<lparr>p_cache := invalidateCache key (p_cache st2)\<rparr>)))"

definition azure_list ::
  "cloud_config \<Rightarrow> azure_client \<Rightarrow> azure_state \<Rightarrow> (string + string list) \<times> azure_state" where
  \<comment> \<open>the store yields the properties one by one and may throw after any of them\<close>
  "azure_list cfg client st =
     (let st1 = azure_record AzListPropertiesOfSecrets st
      in case az_listPropertiesOfSecrets client (p_calls st) of
           (_, Some error) \<Rightarrow>
             (Inl (''Failed to list secrets from Azure: '' @ err_message error), st1)
         | (yielded, None) \<Rightarrow>
             (Inr (concat (map (\<lambda>(tags, name).
                      if (case tags of None \<Rightarrow> None | Some ts \<Rightarrow> map_of ts ''project-name'')
                           = Some (projectName cfg)
                      then [azure_extractKeyFromSecretName cfg name] else []) yielded)),
              st1))"

section \<open>\<open>local.provider.ts\<close>: \<open>get\<close>\<close>

datatype json_leaf = JString string | JOther

type_synonym secrets_doc = "string \<rightharpoonup> (string \<rightharpoonup> json_leaf)"

datatype secrets_file =
    FileMissing
  | FileReadError string
  | FileSyntaxError string
  | FileNotObject string
  | FileObject secrets_doc

record local_state =
  l_secrets :: secrets_doc
  l_secretsFilePath :: string
  l_cache :: cache
  l_cacheTtl :: nat
  l_serviceName :: "string option"

definition loadSecretsFile :: "local_state \<Rightarrow> secrets_file \<Rightarrow> string + secrets_doc" where
  \<comment> \<open>the file system and \<open>JSON.parse\<close> are given by their outcome; \<open>Inl\<close> is the
      message of the error thrown\<close>
  "loadSecretsFile st on_disk =
     (case on_disk of
        FileMissing \<Rightarrow>
          Inl (''Secrets file not found: '' @ l_secretsFilePath st @ [CHR 0x0A, CHR 0x0A]
               @ ''Please create .secrets.local.json in your project root.'' @ [CHR 0x0A]
               @ ''See docs/secrets-management-strategy.md for details.'')
      | FileReadError message \<Rightarrow> Inl message
      | FileSyntaxError message \<Rightarrow>
          Inl (''Failed to parse secrets file: '' @ l_secretsFilePath st @ [CHR 0x0A]
               @ ''JSON syntax error: '' @ message)
      | FileNotObject type_name \<Rightarrow>
          Inl (''Invalid secrets file format. Expected object, got '' @ type_name)
      | FileObject doc \<Rightarrow> Inr doc)"

definition stringAt :: "(string \<rightharpoonup> json_leaf) option \<Rightarrow> string \<Rightarrow> string option" where
  \<comment> \<open>\<open>config && typeof config[key] === 'string'\<close>, then \<open>config[key]\<close>\<close>
  "stringAt config key =
     (case config of
        None \<Rightarrow> None
      | Some entries \<Rightarrow> (case entries key of Some (JString s) \<Rightarrow> Some s | _ \<Rightarrow> None))"

definition local_get ::
  "secrets_file \<Rightarrow> nat \<Rightarrow> nat \<Rightarrow> string \<Rightarrow> local_state \<Rightarrow> (string + string) \<times> local_state" where
  "local_get on_disk now_read now_write key st =
     (case (case l_cache st key of
              Some cached \<Rightarrow> if now_read < ce_expiresAt cached then Some (ce_value cached) else None
            | None \<Rightarrow> None) of
        Some hit \<Rightarrow> (Inr hit, st)
      | None \<Rightarrow>
          (case loadSecretsFile st on_disk of
             Inl message \<Rightarrow> (Inl message, st)
           | Inr doc \<Rightarrow>
               (let st1 = st\<lparr>l_secrets := doc\<rparr>;
                    scoped =
                      (if truthy (l_serviceName st)
                       then stringAt (doc (case l_serviceName st of Some n \<Rightarrow> n | None \<Rightarrow> [])) key
                       else None);
                    v = (if \<not> truthy scoped
                         then (case stringAt (doc ''secrets'') key of
                                 Some topLevel \<Rightarrow> Some topLevel
                               | None \<Rightarrow> scoped)
                         else scoped)
                in if \<not> truthy v
                   then (Inl (''Secret '' @ [CHR 0x22] @ key @ [CHR 0x22] @ '' not found. ''
                              @ (if truthy (l_serviceName st)
                                 then ''Searched in service '' @ [CHR 0x22]
                                      @ (case l_serviceName st of Some n \<Rightarrow> n | None \<Rightarrow> [])
                                      @ [CHR 0x22] @ '' and top-level secrets.''
                                 else ''Searched in top-level secrets only. Use setServiceName() to search in a specific service.'')),
                         st1)
                   else
                     (Inr (case v of Some found \<Rightarrow> found | None \<Rightarrow> []),
                      st1\<lparr>l_cache := (l_cache st1)
                             (key \<mapsto> \<lparr>ce_value = (case v of Some found \<Rightarrow> found | None \<Rightarrow> []),
                                        ce_expiresAt = now_write + l_cacheTtl st\<rparr>)\<rparr>))))"

definition local_new :: "string \<Rightarrow> nat option \<Rightarrow> secrets_file \<Rightarrow> string + local_state" where
  \<comment> \<open>the constructor, \<open>cacheTtl: number = 60000\<close>; the path is the one \<open>findProjectRoot\<close> found\<close>
  "local_new secretsFilePath cacheTtl on_disk =
     (let st = \<lparr>l_secrets = Map.empty, l_secretsFilePath = secretsFilePath, l_cache = Map.empty,
                l_cacheTtl = (case cacheTtl of None \<Rightarrow> 60000 | Some ttl \<Rightarrow> ttl),
                l_serviceName = None\<rparr>
      in case loadSecretsFile st on_disk of
           Inl message \<Rightarrow> Inl message
         | Inr doc \<Rightarrow> Inr (st\<lparr>l_secrets := doc\<rparr>))"

definition setServiceName :: "string \<Rightarrow> local_state \<Rightarrow> local_state" where
  "setServiceName name st = st\<lparr>l_serviceName := Some name\<rparr>"

subsection \<open>Concrete stores and provider states used below\<close>

definition test_config :: cloud_config where
  "test_config = \<lparr>projectName = ''testproject'', serviceName = ''test-service'',
                   gcpProjectId = ''gcp-project-123''\<rparr>"

definition aws_empty_client :: aws_client where
  \<comment> \<open>a store that holds no secret: every command is rejected\<close>
  "aws_empty_client =
     \<lparr>sendGetSecretValue = (\<lambda>h n. Inl \<lparr>err_code = None, err_message = ''ResourceNotFoundException''\<rparr>),
      sendCreateSecret = (\<lambda>h n v t. Inl \<lparr>err_code = None, err_message = ''AccessDeniedException''\<rparr>),
      sendPutSecretValue = (\<lambda>h n v. Inl \<lparr>err_code = None, err_message = ''ResourceNotFoundException''\<rparr>),
      sendDeleteSecret = (\<lambda>h n. Inl \<lparr>err_code = None, err_message = ''ResourceNotFoundException''\<rparr>),
      sendDescribeSecret = (\<lambda>h n. Inl \<lparr>err_code = None, err_message = ''ResourceNotFoundException''\<rparr>),
      sendListSecrets = (\<lambda>h p t. Inl \<lparr>err_code = None, err_message = ''AccessDeniedException''\<rparr>)\<rparr>"

definition fresh :: "'c provider_state" where
  "fresh = \<lparr>p_cache = Map.empty, p_calls = []\<rparr>"

definition aws_url_client :: aws_client where
  "aws_url_client =
     aws_empty_client\<lparr>sendGetSecretValue := (\<lambda>h n. Inr (Some ''https://auth.example.com''))\<rparr>"

definition azure_url_client :: azure_client where
  "azure_url_client =
     \<lparr>az_getSecret = (\<lambda>h n. Inr (Some ''https://auth.example.com'')),
      az_setSecret = (\<lambda>h n v t. Inr ()),
      az_beginDeleteSecret = (\<lambda>h n. Inr ()),
      az_pollUntilDone = (\<lambda>h n. Inr ()),
      az_listPropertiesOfSecrets = (\<lambda>h. ([], None))\<rparr>"

definition no_url_cached :: "cache \<Rightarrow> bool" where
  "no_url_cached c = (\<forall>key entry. c key = Some entry \<longrightarrow> \<not> isUrlValue (ce_value entry))"

definition gcp_unavailable_client :: gcp_client where
  \<comment> \<open>a store that cannot be reached: every call fails with gRPC code 14, UNAVAILABLE\<close>
  "gcp_unavailable_client =
     \<lparr>accessSecretVersion = (\<lambda>h n. Inl \<lparr>err_code = Some 14, err_message = ''UNAVAILABLE''\<rparr>),
      getSecret = (\<lambda>h n. Inl \<lparr>err_code = Some 14, err_message = ''UNAVAILABLE''\<rparr>),
      createSecret = (\<lambda>h p i l. Inl \<lparr>err_code = Some 14, err_message = ''UNAVAILABLE''\<rparr>),
      addSecretVersion = (\<lambda>h p d. Inl \<lparr>err_code = Some 14, err_message = ''UNAVAILABLE''\<rparr>),
      deleteSecret = (\<lambda>h n. Inl \<lparr>err_code = Some 14, err_message = ''UNAVAILABLE''\<rparr>),
      listSecrets = (\<lambda>h p f. Inl \<lparr>err_code = Some 14, err_message = ''UNAVAILABLE''\<rparr>)\<rparr>"

definition held_entry :: cache_entry where
  "held_entry = \<lparr>ce_value = ''cached-value'', ce_expiresAt = 300000\<rparr>"

definition holding :: "'c provider_state" where
  "holding = \<lparr>p_cache = [''CACHED_KEY'' \<mapsto> held_entry], p_calls = []\<rparr>"

definition local_holding :: local_state where
  "local_holding =
     \<lparr>l_secrets = Map.empty, l_secretsFilePath = ''/app/.secrets.local.json'',
      l_cache = [''CACHED_KEY'' \<mapsto> held_entry], l_cacheTtl = 60000,
      l_serviceName = Some ''test-service''\<rparr>"

definition emptied_file :: secrets_file where
  \<comment> \<open>the secrets file after every secret was removed from it\<close>
  "emptied_file = FileObject Map.empty"

definition reloaded_file :: secrets_file where
  "reloaded_file = FileObject [''secrets'' \<mapsto> [''CACHED_KEY'' \<mapsto> JString ''fresh-value'']]"

definition aws_failing_client :: aws_client where
  \<comment> \<open>a store whose every command fails with a throttling error\<close>
  "aws_failing_client =
     \<lparr>sendGetSecretValue = (\<lambda>h n. Inl \<lparr>err_code = None, err_message = ''ThrottlingException''\<rparr>),
      sendCreateSecret = (\<lambda>h n v t. Inl \<lparr>err_code = None, err_message = ''ThrottlingException''\<rparr>),
      sendPutSecretValue = (\<lambda>h n v. Inl \<lparr>err_code = None, err_message = ''ThrottlingException''\<rparr>),
      sendDeleteSecret = (\<lambda>h n. Inl \<lparr>err_code = None, err_message = ''ThrottlingException''\<rparr>),
      sendDescribeSecret = (\<lambda>h n. Inl \<lparr>err_code = None, err_message = ''ThrottlingException''\<rparr>),
      sendListSecrets = (\<lambda>h p t. Inl \<lparr>err_code = None, err_message = ''ThrottlingException''\<rparr>)\<rparr>"

definition azure_failing_client :: azure_client where
  \<comment> \<open>a vault that refuses every call\<close>
  "azure_failing_client =
     \<lparr>az_getSecret = (\<lambda>h n. Inl \<lparr>err_code = None, err_message = ''Forbidden''\<rparr>),
      az_setSecret = (\<lambda>h n v t. Inl \<lparr>err_code = None, err_message = ''Forbidden''\<rparr>),
      az_beginDeleteSecret = (\<lambda>h n. Inl \<lparr>err_code = None, err_message = ''Forbidden''\<rparr>),
      az_pollUntilDone = (\<lambda>h n. Inl \<lparr>err_code = None, err_message = ''Forbidden''\<rparr>),
      az_listPropertiesOfSecrets = (\<lambda>h. ([], Some \<lparr>err_code = None, err_message = ''Forbidden''\<rparr>))\<rparr>"

definition gcp_probe_failing_client :: gcp_client where
  \<comment> \<open>a store that cannot answer \<open>getSecret\<close> (gRPC code 14, UNAVAILABLE) and accepts
      every write\<close>
  "gcp_probe_failing_client =
     \<lparr>accessSecretVersion = (\<lambda>h n. Inr None),
      getSecret = (\<lambda>h n. Inl \<lparr>err_code = Some 14, err_message = ''UNAVAILABLE''\<rparr>),
      createSecret = (\<lambda>h p i l. Inr ()),
      addSecretVersion = (\<lambda>h p d. Inr ()),
      deleteSecret = (\<lambda>h n. Inr ()),
      listSecrets = (\<lambda>h p f. Inr [])\<rparr>"

definition aws_echo_client :: aws_client where
  \<comment> \<open>a store whose rejection of \<open>CreateSecret\<close> quotes the value it was sent\<close>
  "aws_echo_client =
     aws_empty_client\<lparr>sendCreateSecret :=
       (\<lambda>h n v t. Inl \<lparr>err_code = None, err_message = ''InvalidRequestException: '' @ v\<rparr>)\<rparr>"

section \<open>Verified properties\<close>


subsection \<open>Helper facts about strings\<close>

lemma hyphen_not_lower: "\<not> is_lower (CHR ''-'')"
  by (simp add: is_lower_def)

lemma camel_by_position_scan:
  "camel_by_position before s =
     (case s of
        [] \<Rightarrow> []
      | c # cs \<Rightarrow>
          if before = Some (CHR ''-'') \<and> is_lower c then toUpperCase_char c # toCamelCase cs
          else toCamelCase s)"
proof (induction before s rule: camel_by_position.induct)
  case (1 before)
  show ?case by simp
next
  case (2 before c)
  show ?case by (auto simp: hyphen_rule_def hyphen_not_lower)
next
  case (3 before c d cs)
  then show ?case
    by (cases cs) (auto simp: hyphen_rule_def hyphen_not_lower)
qed

lemma toCamelCase_no_hyphen: "CHR ''-'' \<notin> set s \<Longrightarrow> toCamelCase s = s"
  by (induction s rule: toCamelCase.induct) auto




lemma str_includes_iff: "str_includes s sub \<longleftrightarrow> (\<exists>a b. s = a @ sub @ b)"
proof (induction s)
  case Nil
  show ?case by auto
next
  case (Cons c cs)
  show ?case
  proof
    assume "str_includes (c # cs) sub"
    then consider "prefix sub (c # cs)" | "str_includes cs sub" by auto
    then show "\<exists>a b. c # cs = a @ sub @ b"
    proof cases
      case 1
      then obtain b where "c # cs = sub @ b" by (auto simp: prefix_def)
      then have "c # cs = [] @ sub @ b" by simp
      then show ?thesis by blast
    next
      case 2
      with Cons obtain a b where "cs = a @ sub @ b" by blast
      then have "c # cs = (c # a) @ sub @ b" by simp
      then show ?thesis by blast
    qed
  next
    assume "\<exists>a b. c # cs = a @ sub @ b"
    then obtain a b where ab: "c # cs = a @ sub @ b" by blast
    show "str_includes (c # cs) sub"
    proof (cases a)
      case Nil
      with ab have "prefix sub (c # cs)" by (simp add: prefix_def)
      then show ?thesis by simp
    next
      case (Cons x xs)
      with ab have "cs = xs @ sub @ b" by simp
      with Cons.IH have "str_includes cs sub" by blast
      then show ?thesis by simp
    qed
  qed
qed



subsection \<open>Helper facts about numbers\<close>














subsection \<open>Claim names and claim values\<close>

text \<open>
  C9. \<open>toCamelCase\<close> upper-cases exactly the letters of \<open>[a-z]\<close> that come right after
  a hyphen, drops that hyphen, and keeps every other character: the scan of the source
  agrees with the position-by-position rule \<open>camel_by_position\<close>. In particular
  \<open>tenant-id\<close> becomes \<open>tenantId\<close>, a string without a hyphen is returned as it is,
  and \<open>user--id\<close> becomes \<open>user-Id\<close>.
\<close>

theorem toCamelCase_spec:
  "toCamelCase s = camel_by_position None s
   \<and> toCamelCase ''tenant-id'' = ''tenantId''
   \<and> (CHR ''-'' \<notin> set s \<longrightarrow> toCamelCase s = s)
   \<and> toCamelCase ''user--id'' = ''user-Id''"
proof -
  have "toCamelCase s = camel_by_position None s"
    by (simp add: camel_by_position_scan split: list.splits)
  moreover have "toCamelCase ''tenant-id'' = ''tenantId''" by code_simp
  moreover have "toCamelCase ''user--id'' = ''user-Id''" by code_simp
  ultimately show ?thesis using toCamelCase_no_hyphen by blast
qed

theorem toCamelCase_spec_witness:
  "CHR ''-'' \<notin> set ''email'' \<and> toCamelCase ''email'' = ''email''
   \<and> toCamelCase ''user-role-name'' = camel_by_position None ''user-role-name''
   \<and> camel_by_position None ''user-role-name'' = ''userRoleName''"
proof -
  have "CHR ''-'' \<notin> set ''email''" by simp
  moreover have "camel_by_position None ''user-role-name'' = ''userRoleName''" by code_simp
  ultimately show ?thesis
    using toCamelCase_spec [of "''email''"] toCamelCase_spec [of "''user-role-name''"] by blast
qed




lemma infrastructure_endpoint_iff:
  "infrastructure_endpoint path \<longleftrightarrow>
     (\<exists>p. path = Some p \<and>
        (p = ''/health'' \<or> prefix ''/health/'' p \<or> p = ''/metrics''
         \<or> (\<exists>a b. p = a @ ''/.well-known/'' @ b)))"
proof (cases path)
  case None
  then show ?thesis by (simp add: infrastructure_endpoint_def)
next
  case (Some p)
  have ne: "p = ''/health'' \<or> prefix ''/health/'' p \<or> p = ''/metrics''
         \<or> (\<exists>a b. p = a @ ''/.well-known/'' @ b) \<Longrightarrow> p \<noteq> []"
    by auto
  show ?thesis
    using ne by (auto simp add: Some infrastructure_endpoint_def str_includes_iff startsWith_def
        simp del: str_includes.simps)
qed

lemma verify_skipped_iff:
  "verifyKongTrustHeader secrets request = (Inr (), [])
     \<longleftrightarrow> infrastructure_endpoint (or_else (req_url request) (req_path request))"
  by (auto simp: verifyKongTrustHeader_def Let_def split: option.splits sum.splits if_splits)

lemma verify_silent_iff:
  "truthy (header request ''x-kong-trust'') \<Longrightarrow>
   snd (verifyKongTrustHeader secrets request) = []
     \<longleftrightarrow> infrastructure_endpoint (or_else (req_url request) (req_path request))"
  by (auto simp: verifyKongTrustHeader_def Let_def truthy_def split: option.splits sum.splits if_splits)

lemma canActivate_from_kong:
  "truthy (header request ''x-kong-trust'') \<Longrightarrow>
   snd (canActivate secrets parseUserinfo isPublic request) = snd (verifyKongTrustHeader secrets request)"
  by (cases "verifyKongTrustHeader secrets request"; cases "fst (verifyKongTrustHeader secrets request)")
     (auto simp: canActivate_def Let_def split: prod.splits sum.splits)

subsection \<open>The gateway-trust check\<close>

text \<open>
  C6. \<open>verifyKongTrustHeader\<close> returns at once, with no secret read and no look at the
  trust header, exactly for the paths that are \<open>/health\<close>, start with \<open>/health/\<close>, are
  \<open>/metrics\<close> or contain \<open>/.well-known/\<close>; the headers play no part in this, so the
  check is skipped whether the trust header is valid, invalid or absent. Through
  \<open>canActivate\<close>, a request with a trust header causes no secret read and no comparison
  exactly on such a path. \<open>/well-known-users\<close> and \<open>/wellknown/config\<close> are not such
  paths.
\<close>

theorem trust_check_bypass_paths:
  "(verifyKongTrustHeader secrets request = (Inr (), []) \<longleftrightarrow>
      (\<exists>p. or_else (req_url request) (req_path request) = Some p \<and>
         (p = ''/health'' \<or> prefix ''/health/'' p \<or> p = ''/metrics''
          \<or> (\<exists>a b. p = a @ ''/.well-known/'' @ b))))
   \<and> (truthy (header request ''x-kong-trust'') \<longrightarrow>
        (snd (canActivate secrets parseUserinfo isPublic request) = [] \<longleftrightarrow>
         infrastructure_endpoint (or_else (req_url request) (req_path request))))
   \<and> \<not> infrastructure_endpoint (Some ''/well-known-users'')
   \<and> \<not> infrastructure_endpoint (Some ''/wellknown/config'')"
proof -
  have a: "\<not> infrastructure_endpoint (Some ''/well-known-users'')" by code_simp
  have b: "\<not> infrastructure_endpoint (Some ''/wellknown/config'')" by code_simp
  have c: "truthy (header request ''x-kong-trust'') \<longrightarrow>
        (snd (canActivate secrets parseUserinfo isPublic request) = [] \<longleftrightarrow>
         infrastructure_endpoint (or_else (req_url request) (req_path request)))"
    using canActivate_from_kong [of request secrets parseUserinfo isPublic]
      verify_silent_iff [of request secrets] by auto
  show ?thesis
    using a b c by (simp only: verify_skipped_iff infrastructure_endpoint_iff) simp
qed

theorem trust_check_bypass_paths_witness:
  "or_else (req_url jwks_request) (req_path jwks_request) = Some (''/auth'' @ ''/.well-known/'' @ ''jwks.json'')
   \<and> verifyKongTrustHeader test_secrets jwks_request = (Inr (), [])
   \<and> truthy (header jwks_request ''x-kong-trust'')
   \<and> snd (canActivate test_secrets no_userinfo True jwks_request) = []"
proof -
  have p: "or_else (req_url jwks_request) (req_path jwks_request)
             = Some (''/auth'' @ ''/.well-known/'' @ ''jwks.json'')"
    by (simp add: jwks_request_def or_else_def truthy_def)
  have t: "truthy (header jwks_request ''x-kong-trust'')"
    by (simp add: jwks_request_def header_def truthy_def)
  have i: "infrastructure_endpoint (or_else (req_url jwks_request) (req_path jwks_request))"
    unfolding p by code_simp
  from p have e: "\<exists>p. or_else (req_url jwks_request) (req_path jwks_request) = Some p \<and>
         (p = ''/health'' \<or> prefix ''/health/'' p \<or> p = ''/metrics''
          \<or> (\<exists>a b. p = a @ ''/.well-known/'' @ b))"
    by blast
  show ?thesis
    using p t i e
      trust_check_bypass_paths [of test_secrets jwks_request no_userinfo True]
    by blast
qed

lemma verify_compares_equal_lengths:
  "TimingSafeEqual a b \<in> set (snd (verifyKongTrustHeader secrets request)) \<Longrightarrow> length a = length b"
  by (auto simp: verifyKongTrustHeader_def Let_def split: option.splits sum.splits if_splits)

lemma validate_compares_equal_lengths:
  "TimingSafeEqual a b \<in> set (snd (validateServiceApiKey secrets request apiKey)) \<Longrightarrow> length a = length b"
  by (auto simp: validateServiceApiKey_def Let_def split: option.splits sum.splits if_splits)

lemma verify_length_mismatch:
  assumes "\<not> infrastructure_endpoint (or_else (req_url request) (req_path request))"
    and "header request ''x-kong-trust'' = Some h" and "h \<noteq> []"
    and "secrets ''KONG_TRUST_TOKEN'' = Inr (Some t)" and "t \<noteq> []"
    and "length (Buffer_from h) \<noteq> length (Buffer_from t)"
  shows "verifyKongTrustHeader secrets request
           = (Inl (UnauthorizedException ''Unauthorized request''), [SecretsGet ''KONG_TRUST_TOKEN''])"
  using assms by (simp add: verifyKongTrustHeader_def Let_def truthy_def)

lemma validate_length_mismatch:
  assumes "secrets ''API_KEY'' = Inr (Some k)" and "k \<noteq> []"
    and "length (Buffer_from apiKey) \<noteq> length (Buffer_from k)"
  shows "validateServiceApiKey secrets request apiKey
           = (Inl (ForbiddenException ''Invalid API key''), [SecretsGet ''API_KEY''])"
  using assms by (simp add: validateServiceApiKey_def Let_def truthy_def)

text \<open>
  C7. In both secret comparisons (trust token, API key) \<open>timingSafeEqual\<close> is called only
  on buffers of equal length, and buffers of unequal length are rejected by the length
  test alone: the only event of the call is the secret read.
\<close>

theorem unequal_lengths_short_circuit:
  "(\<forall>a b. TimingSafeEqual a b \<in> set (snd (verifyKongTrustHeader secrets request)) \<longrightarrow> length a = length b)
   \<and> (\<forall>a b. TimingSafeEqual a b \<in> set (snd (validateServiceApiKey secrets request apiKey)) \<longrightarrow> length a = length b)
   \<and> (\<not> infrastructure_endpoint (or_else (req_url request) (req_path request))
        \<and> header request ''x-kong-trust'' = Some h \<and> h \<noteq> []
        \<and> secrets ''KONG_TRUST_TOKEN'' = Inr (Some t) \<and> t \<noteq> []
        \<and> length (Buffer_from h) \<noteq> length (Buffer_from t) \<longrightarrow>
        verifyKongTrustHeader secrets request
          = (Inl (UnauthorizedException ''Unauthorized request''), [SecretsGet ''KONG_TRUST_TOKEN'']))
   \<and> (secrets ''API_KEY'' = Inr (Some k) \<and> k \<noteq> []
        \<and> length (Buffer_from apiKey) \<noteq> length (Buffer_from k) \<longrightarrow>
        validateServiceApiKey secrets request apiKey
          = (Inl (ForbiddenException ''Invalid API key''), [SecretsGet ''API_KEY'']))"
  using verify_compares_equal_lengths validate_compares_equal_lengths
    verify_length_mismatch validate_length_mismatch
  by blast

theorem unequal_lengths_short_circuit_witness:
  "verifyKongTrustHeader test_secrets mismatch_request
     = (Inl (UnauthorizedException ''Unauthorized request''), [SecretsGet ''KONG_TRUST_TOKEN''])
   \<and> validateServiceApiKey test_secrets mismatch_request ''short''
     = (Inl (ForbiddenException ''Invalid API key''), [SecretsGet ''API_KEY''])
   \<and> length (Buffer_from ''invalid-token'') \<noteq> length (Buffer_from ''test-kong-trust-token-12345'')
   \<and> length (Buffer_from ''short'') \<noteq> length (Buffer_from ''direct-service-api-key'')"
proof -
  have a: "\<not> infrastructure_endpoint (or_else (req_url mismatch_request) (req_path mismatch_request))"
    by code_simp
  have b: "header mismatch_request ''x-kong-trust'' = Some ''invalid-token''"
    by (simp add: header_def mismatch_request_def)
  have c: "test_secrets ''KONG_TRUST_TOKEN'' = Inr (Some ''test-kong-trust-token-12345'')"
    by (simp add: test_secrets_def)
  have d: "test_secrets ''API_KEY'' = Inr (Some ''direct-service-api-key'')"
    by (simp add: test_secrets_def)
  have e: "length (Buffer_from ''invalid-token'') \<noteq> length (Buffer_from ''test-kong-trust-token-12345'')"
    by code_simp
  have f: "length (Buffer_from ''short'') \<noteq> length (Buffer_from ''direct-service-api-key'')"
    by code_simp
  have g: "''invalid-token'' \<noteq> [] \<and> ''test-kong-trust-token-12345'' \<noteq> [] \<and> ''direct-service-api-key'' \<noteq> []"
    by simp
  show ?thesis
    using a b c d e f g
      unequal_lengths_short_circuit [of test_secrets mismatch_request "''short''"
        "''invalid-token''" "''test-kong-trust-token-12345''" "''direct-service-api-key''"]
    by blast
qed

subsection \<open>Admission\<close>

text \<open>
  C10. A request whose trust header and API-key header are both missing (or empty), on a
  route that is not public, with a non-empty \<open>x-consumer-id\<close>, \<open>x-credential-identifier\<close>
  or \<open>x-userinfo\<close> header, is admitted with the extracted user attached, and no secret is
  read and no comparison is made: the event list is empty.
\<close>

theorem identity_headers_need_no_secret:
  assumes "\<not> truthy (header request ''x-kong-trust'')"
    and "\<not> truthy (header request ''x-api-key'')"
    and "truthy (header request ''x-consumer-id'')
         \<or> truthy (header request ''x-credential-identifier'')
         \<or> truthy (header request ''x-userinfo'')"
  shows "canActivate secrets parseUserinfo False request
           = (Inr (request\<lparr>req_user :=
                       Some (extractUserFromHeaders parseUserinfo (req_headers request))\<rparr>), [])"
  using assms by (auto simp: canActivate_def Let_def header_def)

theorem identity_headers_need_no_secret_witness:
  "\<not> truthy (header consumer_request ''x-kong-trust'')
   \<and> \<not> truthy (header consumer_request ''x-api-key'')
   \<and> truthy (header consumer_request ''x-consumer-id'')
   \<and> canActivate test_secrets no_userinfo False consumer_request
       = (Inr (consumer_request\<lparr>req_user :=
                 Some [(''id'', VString ''user-123''), (''tenantId'', VString ''tenant-456'')]\<rparr>), [])"
proof -
  have a: "\<not> truthy (header consumer_request ''x-kong-trust'')" by code_simp
  have b: "\<not> truthy (header consumer_request ''x-api-key'')" by code_simp
  have c: "truthy (header consumer_request ''x-consumer-id'')" by code_simp
  have d: "extractUserFromHeaders no_userinfo (req_headers consumer_request)
             = [(''id'', VString ''user-123''), (''tenantId'', VString ''tenant-456'')]"
    by code_simp
  show ?thesis
    using a b c d identity_headers_need_no_secret [of consumer_request test_secrets no_userinfo]
    by simp
qed

text \<open>
  When does an admitted request carry both a user and a service? Exactly on a direct call
  (no trust header) with an accepted API key, a route that is not public and an identity
  header. A request that came through the gateway never carries both.
\<close>

lemma validate_result:
  "validateServiceApiKey secrets request apiKey = (Inr r, evs) \<Longrightarrow>
     r = request\<lparr>req_service := or_else (header request ''x-service-name'') (Some ''internal'')\<rparr>"
  by (auto simp: validateServiceApiKey_def Let_def split: sum.splits if_splits)

lemma or_else_internal: "or_else h (Some ''internal'') \<noteq> None"
  by (auto simp: or_else_def truthy_def split: option.splits)

lemma header_update [simp]:
  "header (request\<lparr>req_service := s\<rparr>) name = header request name"
  "header (request\<lparr>req_user := u\<rparr>) name = header request name"
  by (simp_all add: header_def)

lemma both_attached_iff:
  assumes "req_user request = None" and "req_service request = None"
    and "canActivate secrets parseUserinfo isPublic request = (Inr r, evs)"
  shows "(req_user r \<noteq> None \<and> req_service r \<noteq> None) \<longleftrightarrow>
           (\<not> truthy (header request ''x-kong-trust'') \<and> truthy (header request ''x-api-key'')
            \<and> \<not> isPublic
            \<and> (truthy (header request ''x-consumer-id'')
               \<or> truthy (header request ''x-credential-identifier'')
               \<or> truthy (header request ''x-userinfo'')))"
proof (cases "truthy (header request ''x-kong-trust'')")
  case True
  with assms show ?thesis
    by (cases "verifyKongTrustHeader secrets request";
        cases "fst (verifyKongTrustHeader secrets request)")
       (auto simp: canActivate_def Let_def split: if_splits)
next
  case False
  note noKong = this
  show ?thesis
  proof (cases "truthy (header request ''x-api-key'')")
    case False
    with noKong assms show ?thesis
      by (auto simp: canActivate_def Let_def split: if_splits)
  next
    case True
    obtain res evs' where v: "validateServiceApiKey secrets request
             (case header request ''x-api-key'' of Some k \<Rightarrow> k | None \<Rightarrow> []) = (res, evs')"
      by (cases "validateServiceApiKey secrets request
             (case header request ''x-api-key'' of Some k \<Rightarrow> k | None \<Rightarrow> [])")
    show ?thesis
    proof (cases res)
      case (Inl e)
      with noKong True v assms show ?thesis by (simp add: canActivate_def Let_def)
    next
      case (Inr r0)
      with v have r0: "r0 = request\<lparr>req_service :=
                         or_else (header request ''x-service-name'') (Some ''internal'')\<rparr>"
        using validate_result by blast
      with noKong True v Inr assms or_else_internal [of "header request ''x-service-name''"]
      show ?thesis
        by (auto simp: canActivate_def Let_def truthy_def split: if_splits)
    qed
  qed
qed

text \<open>
  C1. A direct call with a valid \<open>x-api-key\<close> and an \<open>x-consumer-id\<close> header on a route
  that is not public: \<open>validateServiceApiKey\<close> has already stored the service name when
  the user is extracted, and nothing removes it, so the admitted request carries both
  \<open>req_user\<close> and \<open>req_service\<close>.
\<close>

theorem direct_key_with_identity_keeps_service:
  "fst (canActivate test_secrets no_userinfo False forwarded_request)
     = Inr (forwarded_request\<lparr>req_user := Some [(''id'', VString ''user-123'')],
                              req_service := Some ''internal''\<rparr>)"
  by code_simp

lemmas eval_defs = getFromCache_def fetchSecretFromGCP_def fetchSecretFromAWS_def fetchSecretFromAzure_def
  gcp_record_def aws_record_def azure_record_def buildSecretName_def azure_buildSecretName_def
  test_config_def fresh_def Let_def truthy_def

section \<open>Secret providers\<close>

subsection \<open>The key \<open>API_KEY\<close>\<close>

text \<open>
  C2, as stated, fails on the AWS provider: asked for \<open>API_KEY\<close> with an empty cache, it
  reads the service-scoped secret \<open>testproject-test-service-API_KEY\<close> first and the
  shared secret \<open>testproject-shared-API_KEY\<close> after it.
\<close>

theorem aws_api_key_service_scope_first:
  "p_calls (snd (aws_get test_config aws_empty_client 0 0 ''API_KEY'' fresh))
     = [GetSecretValueCommand ''testproject-test-service-API_KEY'',
        GetSecretValueCommand ''testproject-shared-API_KEY'']"
  by (simp add: aws_get_def aws_empty_client_def eval_defs)

lemma gcp_api_key_shared_only:
  assumes "fst (getFromCache now_read ''API_KEY'' (p_cache st)) = None"
  shows "p_calls (snd (gcp_get cfg client now_read now_write ''API_KEY'' st))
           = p_calls st @
             [AccessSecretVersion
                (''projects/'' @ gcpProjectId cfg @ ''/secrets/'' @ projectName cfg @ ''-shared-''
                 @ replace_all (CHR ''-'') (CHR ''_'') (toUpperCase (serviceName cfg)) @ ''_API_KEY''
                 @ ''/versions/latest'')]"
  using assms
  by (cases "getFromCache now_read ''API_KEY'' (p_cache st)")
     (auto simp: gcp_get_def fetchSecretFromGCP_def gcp_record_def buildSecretName_def Let_def
           split: sum.splits option.splits prod.splits)

lemma aws_first_lookup:
  assumes "fst (getFromCache now_read key (p_cache st)) = None"
  shows "\<exists>rest. p_calls (snd (aws_get cfg client now_read now_write key st))
           = p_calls st @ GetSecretValueCommand (projectName cfg @ ''-'' @ serviceName cfg @ ''-'' @ key) # rest
           \<and> (rest = [] \<or> rest = [GetSecretValueCommand (projectName cfg @ ''-shared-'' @ key)])"
  using assms
  by (cases "getFromCache now_read key (p_cache st)")
     (auto simp: aws_get_def fetchSecretFromAWS_def aws_record_def buildSecretName_def Let_def
           split: sum.splits option.splits prod.splits)

lemma azure_first_lookup:
  assumes "fst (getFromCache now_read key (p_cache st)) = None"
  shows "\<exists>rest. p_calls (snd (azure_get cfg client now_read now_write key st))
           = p_calls st @ AzGetSecret (projectName cfg @ ''-'' @ serviceName cfg @ ''-'' @ transformKey key) # rest
           \<and> (rest = [] \<or> rest = [AzGetSecret (projectName cfg @ ''-shared-'' @ transformKey key)])"
  using assms
  by (cases "getFromCache now_read key (p_cache st)")
     (auto simp: azure_get_def fetchSecretFromAzure_def azure_record_def azure_buildSecretName_def Let_def
           split: sum.splits option.splits prod.splits)

text \<open>
  C2, amended. Only the GCP provider treats \<open>API_KEY\<close> apart: on a cache miss its \<open>get\<close>
  makes exactly one store read, of the shared secret named after the service in upper
  snake case, \<open>{project}-shared-{SERVICE_NAME}_API_KEY\<close>, and no service-scoped read. The
  AWS and Azure providers treat \<open>API_KEY\<close> as any other key: on a cache miss the first
  read is the service-scoped \<open>{project}-{service}-API_KEY\<close> (Azure: \<open>-API-KEY\<close>), followed
  at most by the shared read under the same key.
\<close>

theorem api_key_lookup_by_provider:
  "(fst (getFromCache now ''API_KEY'' (p_cache gst)) = None \<longrightarrow>
      p_calls (snd (gcp_get cfg gclient now now' ''API_KEY'' gst))
        = p_calls gst @
          [AccessSecretVersion
             (''projects/'' @ gcpProjectId cfg @ ''/secrets/'' @ projectName cfg @ ''-shared-''
              @ replace_all (CHR ''-'') (CHR ''_'') (toUpperCase (serviceName cfg)) @ ''_API_KEY''
              @ ''/versions/latest'')])
   \<and> (fst (getFromCache now ''API_KEY'' (p_cache ast)) = None \<longrightarrow>
      (\<exists>rest. p_calls (snd (aws_get cfg aclient now now' ''API_KEY'' ast))
           = p_calls ast
             @ GetSecretValueCommand (projectName cfg @ ''-'' @ serviceName cfg @ ''-API_KEY'') # rest
         \<and> (rest = [] \<or> rest = [GetSecretValueCommand (projectName cfg @ ''-shared-API_KEY'')])))
   \<and> (fst (getFromCache now ''API_KEY'' (p_cache zst)) = None \<longrightarrow>
      (\<exists>rest. p_calls (snd (azure_get cfg zclient now now' ''API_KEY'' zst))
           = p_calls zst
             @ AzGetSecret (projectName cfg @ ''-'' @ serviceName cfg @ ''-API-KEY'') # rest
         \<and> (rest = [] \<or> rest = [AzGetSecret (projectName cfg @ ''-shared-API-KEY'')])))"
proof -
  have t: "transformKey ''API_KEY'' = ''API-KEY''" by (simp add: transformKey_def)
  show ?thesis
    using gcp_api_key_shared_only [of now gst cfg gclient now']
      aws_first_lookup [of now "''API_KEY''" ast cfg aclient now']
      azure_first_lookup [of now "''API_KEY''" zst cfg zclient now']
    by (simp add: t)
qed

theorem api_key_lookup_by_provider_witness:
  "fst (getFromCache 0 ''API_KEY'' (p_cache (fresh :: gcp_state))) = None
   \<and> p_calls (snd (gcp_get test_config gcp_unavailable_client 0 0 ''API_KEY'' fresh))
     = [AccessSecretVersion
          ''projects/gcp-project-123/secrets/testproject-shared-TEST_SERVICE_API_KEY/versions/latest'']
   \<and> fst (getFromCache 0 ''API_KEY'' (p_cache (fresh :: aws_state))) = None
   \<and> hd (p_calls (snd (aws_get test_config aws_empty_client 0 0 ''API_KEY'' fresh)))
     = GetSecretValueCommand ''testproject-test-service-API_KEY''
   \<and> fst (getFromCache 0 ''API_KEY'' (p_cache (fresh :: azure_state))) = None
   \<and> hd (p_calls (snd (azure_get test_config azure_url_client 0 0 ''API_KEY'' fresh)))
     = AzGetSecret ''testproject-test-service-API-KEY''"
proof -
  note T = api_key_lookup_by_provider
             [where now = 0 and now' = 0 and cfg = test_config and gst = fresh and ast = fresh
                and zst = fresh and gclient = gcp_unavailable_client and aclient = aws_empty_client
                and zclient = azure_url_client]
  have mg: "fst (getFromCache 0 ''API_KEY'' (p_cache (fresh :: gcp_state))) = None"
    by (simp add: getFromCache_def fresh_def)
  have ma: "fst (getFromCache 0 ''API_KEY'' (p_cache (fresh :: aws_state))) = None"
    by (simp add: getFromCache_def fresh_def)
  have mz: "fst (getFromCache 0 ''API_KEY'' (p_cache (fresh :: azure_state))) = None"
    by (simp add: getFromCache_def fresh_def)
  have u: "replace_all (CHR ''-'') (CHR ''_'') (toUpperCase (serviceName test_config)) = ''TEST_SERVICE''"
    unfolding test_config_def by code_simp
  have p: "p_calls (fresh :: gcp_state) = []" "p_calls (fresh :: aws_state) = []"
    "p_calls (fresh :: azure_state) = []" "gcpProjectId test_config = ''gcp-project-123''"
    "projectName test_config = ''testproject''" "serviceName test_config = ''test-service''"
    by (simp_all add: fresh_def test_config_def)
  have g: "p_calls (snd (gcp_get test_config gcp_unavailable_client 0 0 ''API_KEY'' fresh))
     = [AccessSecretVersion
          ''projects/gcp-project-123/secrets/testproject-shared-TEST_SERVICE_API_KEY/versions/latest'']"
    using mg u p T [THEN conjunct1] by simp
  have a: "hd (p_calls (snd (aws_get test_config aws_empty_client 0 0 ''API_KEY'' fresh)))
     = GetSecretValueCommand ''testproject-test-service-API_KEY''"
    using ma p T [THEN conjunct2, THEN conjunct1] by auto
  have z: "hd (p_calls (snd (azure_get test_config azure_url_client 0 0 ''API_KEY'' fresh)))
     = AzGetSecret ''testproject-test-service-API-KEY''"
    using mz p T [THEN conjunct2, THEN conjunct2] by auto
  show ?thesis using mg ma mz g a z by simp
qed

subsection \<open>URL values and the cache\<close>

text \<open>
  C3. The AWS and Azure providers have no test on the value in \<open>setCache\<close>: a \<open>get\<close> that
  returns \<open>https://auth.example.com\<close> leaves that value in the cache for five minutes.
  The GCP provider skips such values: its cache, empty at first, never holds a URL value
  (\<open>gcp_get_keeps_urls_out\<close>, \<open>gcp_returned_url_not_cached\<close> below).
\<close>

theorem aws_and_azure_cache_url_values:
  "fst (aws_get test_config aws_url_client 1000 1200 ''AUTH_SERVICE_URL'' fresh)
     = Some ''https://auth.example.com''
   \<and> isUrlValue ''https://auth.example.com''
   \<and> p_cache (snd (aws_get test_config aws_url_client 1000 1200 ''AUTH_SERVICE_URL'' fresh))
         ''AUTH_SERVICE_URL''
       = Some \<lparr>ce_value = ''https://auth.example.com'', ce_expiresAt = 301200\<rparr>
   \<and> fst (azure_get test_config azure_url_client 1000 1200 ''AUTH_SERVICE_URL'' fresh)
     = Some ''https://auth.example.com''
   \<and> p_cache (snd (azure_get test_config azure_url_client 1000 1200 ''AUTH_SERVICE_URL'' fresh))
         ''AUTH_SERVICE_URL''
       = Some \<lparr>ce_value = ''https://auth.example.com'', ce_expiresAt = 301200\<rparr>"
  by (simp add: aws_get_def azure_get_def aws_url_client_def azure_url_client_def aws_empty_client_def
        aws_setCache_def azure_setCache_def CACHE_TTL_MS_def isUrlValue_def startsWith_def eval_defs)

lemma no_url_cached_getFromCache:
  "no_url_cached c \<Longrightarrow> no_url_cached (snd (getFromCache now key c))"
  by (auto simp: no_url_cached_def getFromCache_def split: option.splits)

lemma no_url_cached_gcp_setCache:
  "no_url_cached c \<Longrightarrow> no_url_cached (gcp_setCache now key v c)"
  by (auto simp: no_url_cached_def gcp_setCache_def)

lemma fetchSecretFromGCP_cache: "p_cache (snd (fetchSecretFromGCP cfg client n st)) = p_cache st"
  by (auto simp: fetchSecretFromGCP_def gcp_record_def Let_def split: sum.splits option.splits)

lemma gcp_get_keeps_urls_out:
  assumes "no_url_cached (p_cache st)"
  shows "no_url_cached (p_cache (snd (gcp_get cfg client now_read now_write key st)))"
proof (cases "getFromCache now_read key (p_cache st)")
  case (Pair hit c)
  have c: "no_url_cached c"
    using no_url_cached_getFromCache [OF assms, of now_read key] Pair by simp
  show ?thesis
  proof (cases hit)
    case (Some v)
    with Pair c show ?thesis by (simp add: gcp_get_def)
  next
    case None
    define st0 where "st0 = st\<lparr>p_cache := c\<rparr>"
    have c0: "no_url_cached (p_cache st0)" using c by (simp add: st0_def)
    show ?thesis
      using Pair None c0 no_url_cached_gcp_setCache
      by (auto simp: gcp_get_def Let_def st0_def [symmetric] fetchSecretFromGCP_cache
            split: prod.splits option.splits
            dest!: arg_cong [where f = "\<lambda>p. p_cache (snd p)"])
  qed
qed

lemma gcp_returned_url_not_cached:
  assumes "no_url_cached (p_cache st)"
    and "gcp_get cfg client now_read now_write key st = (Some v, st')"
    and "isUrlValue v"
  shows "\<forall>k entry. p_cache st' k = Some entry \<longrightarrow> ce_value entry \<noteq> v"
proof -
  have "no_url_cached (p_cache st')"
    using gcp_get_keeps_urls_out [OF assms(1), of cfg client now_read now_write key] assms(2)
    by simp
  with assms(3) show ?thesis by (auto simp: no_url_cached_def)
qed

subsection \<open>Errors of the store\<close>

text \<open>
  C4, as stated, fails in four ways. (1) \<open>get\<close>: when every store call fails with gRPC
  code 14 (UNAVAILABLE, a transport error), the GCP provider's \<open>get\<close> returns null after
  trying both scopes; no error reaches the caller. (2) \<open>set\<close>: when the store cannot answer
  \<open>getSecret\<close>, the existence probe inside \<open>set\<close> reads both errors as "absent" and \<open>set\<close>
  succeeds; these store errors are not surfaced. (3) The message can contain the secret
  value: the store's own message is appended to it, and the secret name holds the key, so a
  store that quotes the value, or a value that equals the key, puts the value into the
  message. (4) The message of \<open>list\<close> names no secret.
\<close>

theorem store_errors_not_all_wrapped:
  "fst (gcp_get test_config gcp_unavailable_client 0 0 ''DATABASE_URL'' fresh) = None
   \<and> p_calls (snd (gcp_get test_config gcp_unavailable_client 0 0 ''DATABASE_URL'' fresh))
     = [AccessSecretVersion
          ''projects/gcp-project-123/secrets/testproject-test-service-DATABASE_URL/versions/latest'',
        AccessSecretVersion
          ''projects/gcp-project-123/secrets/testproject-shared-DATABASE_URL/versions/latest'']
   \<and> getSecret gcp_probe_failing_client []
         ''projects/gcp-project-123/secrets/testproject-test-service-DATABASE_URL''
       = Inl \<lparr>err_code = Some 14, err_message = ''UNAVAILABLE''\<rparr>
   \<and> fst (gcp_set test_config gcp_probe_failing_client ''DATABASE_URL'' ''postgres-secret'' None fresh)
       = Inr ()
   \<and> p_calls (snd (gcp_set test_config gcp_probe_failing_client ''DATABASE_URL'' ''postgres-secret''
                      None fresh))
     = [GetSecret ''projects/gcp-project-123/secrets/testproject-test-service-DATABASE_URL'',
        GetSecret ''projects/gcp-project-123/secrets/testproject-shared-DATABASE_URL'',
        CreateSecret ''projects/gcp-project-123'' ''testproject-test-service-DATABASE_URL''
          [(''project-name'', ''testproject''), (''service-name'', ''test-service''),
           (''managed-by'', ''tsdevstack'')],
        AddSecretVersion ''projects/gcp-project-123/secrets/testproject-test-service-DATABASE_URL''
          ''postgres-secret'']
   \<and> fst (aws_set test_config aws_echo_client ''DATABASE_URL'' ''postgres-secret'' None fresh)
       = Inl (''Failed to set secret testproject-test-service-DATABASE_URL in AWS: ''
              @ ''InvalidRequestException: postgres-secret'')
   \<and> str_includes (''Failed to set secret testproject-test-service-DATABASE_URL in AWS: ''
                    @ ''InvalidRequestException: postgres-secret'') ''postgres-secret''
   \<and> fst (aws_set test_config aws_failing_client ''DATABASE_URL'' ''DATABASE_URL'' None fresh)
       = Inl ''Failed to set secret testproject-test-service-DATABASE_URL in AWS: ThrottlingException''
   \<and> str_includes
         ''Failed to set secret testproject-test-service-DATABASE_URL in AWS: ThrottlingException''
         ''DATABASE_URL''
   \<and> fst (gcp_list test_config gcp_unavailable_client fresh)
       = Inl ''Failed to list secrets from GCP: UNAVAILABLE''
   \<and> \<not> str_includes ''Failed to list secrets from GCP: UNAVAILABLE'' ''testproject''"
proof -
  have get: "gcp_get test_config gcp_unavailable_client 0 0 ''DATABASE_URL'' fresh
      = (None, \<lparr>p_cache = Map.empty, p_calls =
           [AccessSecretVersion
              ''projects/gcp-project-123/secrets/testproject-test-service-DATABASE_URL/versions/latest'',
            AccessSecretVersion
              ''projects/gcp-project-123/secrets/testproject-shared-DATABASE_URL/versions/latest'']\<rparr>)"
    by (simp add: gcp_get_def gcp_unavailable_client_def eval_defs)
  have probe: "getSecret gcp_probe_failing_client []
         ''projects/gcp-project-123/secrets/testproject-test-service-DATABASE_URL''
       = Inl \<lparr>err_code = Some 14, err_message = ''UNAVAILABLE''\<rparr>"
    by (simp add: gcp_probe_failing_client_def)
  have set_ok: "gcp_set test_config gcp_probe_failing_client ''DATABASE_URL'' ''postgres-secret'' None fresh
      = (Inr (), \<lparr>p_cache = Map.empty, p_calls =
           [GetSecret ''projects/gcp-project-123/secrets/testproject-test-service-DATABASE_URL'',
            GetSecret ''projects/gcp-project-123/secrets/testproject-shared-DATABASE_URL'',
            CreateSecret ''projects/gcp-project-123'' ''testproject-test-service-DATABASE_URL''
              [(''project-name'', ''testproject''), (''service-name'', ''test-service''),
               (''managed-by'', ''tsdevstack'')],
            AddSecretVersion ''projects/gcp-project-123/secrets/testproject-test-service-DATABASE_URL''
              ''postgres-secret'']\<rparr>)"
    by (simp add: gcp_set_def gcp_exists_def gcp_buildLabels_def invalidateCache_def
          gcp_probe_failing_client_def eval_defs)
  have echo: "fst (aws_set test_config aws_echo_client ''DATABASE_URL'' ''postgres-secret'' None fresh)
       = Inl (''Failed to set secret testproject-test-service-DATABASE_URL in AWS: ''
              @ ''InvalidRequestException: postgres-secret'')"
    by (simp add: aws_set_def aws_exists_def aws_echo_client_def aws_empty_client_def eval_defs)
  have inc1: "str_includes (''Failed to set secret testproject-test-service-DATABASE_URL in AWS: ''
                    @ ''InvalidRequestException: postgres-secret'') ''postgres-secret''"
    by code_simp
  have samekey: "fst (aws_set test_config aws_failing_client ''DATABASE_URL'' ''DATABASE_URL'' None fresh)
       = Inl ''Failed to set secret testproject-test-service-DATABASE_URL in AWS: ThrottlingException''"
    by (simp add: aws_set_def aws_exists_def aws_failing_client_def eval_defs)
  have inc2: "str_includes
         ''Failed to set secret testproject-test-service-DATABASE_URL in AWS: ThrottlingException''
         ''DATABASE_URL''"
    by code_simp
  have lst: "fst (gcp_list test_config gcp_unavailable_client fresh)
       = Inl ''Failed to list secrets from GCP: UNAVAILABLE''"
    by (simp add: gcp_list_def gcp_unavailable_client_def eval_defs)
  have inc3: "\<not> str_includes ''Failed to list secrets from GCP: UNAVAILABLE'' ''testproject''"
    by code_simp
  show ?thesis
    unfolding get set_ok using probe echo inc1 samekey inc2 lst inc3 by simp
qed

lemma gcp_exists_probe:
  "fst (gcp_exists cfg client key st) =
     (\<not> isl (getSecret client (p_calls st)
                (''projects/'' @ gcpProjectId cfg @ ''/secrets/''
                 @ buildSecretName cfg key (serviceName cfg)))
      \<or> \<not> isl (getSecret client
                  (p_calls st @ [GetSecret (''projects/'' @ gcpProjectId cfg @ ''/secrets/''
                                            @ buildSecretName cfg key (serviceName cfg))])
                  (''projects/'' @ gcpProjectId cfg @ ''/secrets/''
                   @ buildSecretName cfg key ''shared'')))"
  by (simp add: gcp_exists_def gcp_record_def Let_def split: sum.splits)

lemma gcp_set_surfaces:
  "fst (gcp_set cfg client key v md st) = Inl m \<longleftrightarrow>
     (\<exists>e. m = ''Failed to set secret '' @ buildSecretName cfg key (serviceName cfg) @ '' in GCP: ''
              @ err_message e
         \<and> (\<not> fst (gcp_exists cfg client key st)
             \<and> createSecret client (p_calls (snd (gcp_exists cfg client key st)))
                 (''projects/'' @ gcpProjectId cfg) (buildSecretName cfg key (serviceName cfg))
                 (gcp_buildLabels cfg md) = Inl e
            \<or> (fst (gcp_exists cfg client key st)
                \<or> createSecret client (p_calls (snd (gcp_exists cfg client key st)))
                     (''projects/'' @ gcpProjectId cfg) (buildSecretName cfg key (serviceName cfg))
                     (gcp_buildLabels cfg md) = Inr ())
              \<and> addSecretVersion client
                  (if fst (gcp_exists cfg client key st)
                   then p_calls (snd (gcp_exists cfg client key st))
                   else p_calls (snd (gcp_exists cfg client key st))
                        @ [CreateSecret (''projects/'' @ gcpProjectId cfg)
                             (buildSecretName cfg key (serviceName cfg)) (gcp_buildLabels cfg md)])
                  (''projects/'' @ gcpProjectId cfg @ ''/secrets/''
                   @ buildSecretName cfg key (serviceName cfg)) v = Inl e))"
proof (cases "gcp_exists cfg client key st")
  case (Pair ex st1)
  show ?thesis
  proof (cases ex)
    case True
    with Pair show ?thesis
      by (auto simp: gcp_set_def gcp_record_def Let_def split: sum.splits)
  next
    case False
    with Pair show ?thesis
      by (auto simp: gcp_set_def gcp_record_def Let_def split: sum.splits)
  qed
qed

lemma gcp_remove_surfaces:
  "fst (gcp_remove cfg client key st) = Inl m \<longleftrightarrow>
     (\<exists>e. m = ''Failed to remove secret '' @ buildSecretName cfg key (serviceName cfg) @ '' from GCP: ''
              @ err_message e
         \<and> deleteSecret client (p_calls st)
             (''projects/'' @ gcpProjectId cfg @ ''/secrets/''
              @ buildSecretName cfg key (serviceName cfg)) = Inl e)"
  by (auto simp: gcp_remove_def Let_def split: sum.splits)

lemma gcp_list_surfaces:
  "fst (gcp_list cfg client st) = Inl m \<longleftrightarrow>
     (\<exists>e. m = ''Failed to list secrets from GCP: '' @ err_message e
         \<and> listSecrets client (p_calls st) (''projects/'' @ gcpProjectId cfg)
             (''labels.project-name='' @ projectName cfg) = Inl e)"
  by (auto simp: gcp_list_def Let_def split: sum.splits)

lemma aws_exists_probe:
  "fst (aws_exists cfg client key st) =
     (\<not> isl (sendDescribeSecret client (p_calls st) (buildSecretName cfg key (serviceName cfg)))
      \<or> \<not> isl (sendDescribeSecret client
                  (p_calls st @ [DescribeSecretCommand (buildSecretName cfg key (serviceName cfg))])
                  (buildSecretName cfg key ''shared'')))"
  by (simp add: aws_exists_def aws_record_def Let_def split: sum.splits)

lemma aws_set_surfaces:
  "fst (aws_set cfg client key v md st) = Inl m \<longleftrightarrow>
     (\<exists>e. m = ''Failed to set secret '' @ buildSecretName cfg key (serviceName cfg) @ '' in AWS: ''
              @ err_message e
         \<and> (\<not> fst (aws_exists cfg client key st)
             \<and> sendCreateSecret client (p_calls (snd (aws_exists cfg client key st)))
                 (buildSecretName cfg key (serviceName cfg)) v (aws_buildTags cfg md) = Inl e
            \<or> fst (aws_exists cfg client key st)
              \<and> sendPutSecretValue client (p_calls (snd (aws_exists cfg client key st)))
                  (buildSecretName cfg key (serviceName cfg)) v = Inl e))"
proof (cases "aws_exists cfg client key st")
  case (Pair ex st1)
  show ?thesis
  proof (cases ex)
    case True
    with Pair show ?thesis
      by (auto simp: aws_set_def Let_def split: sum.splits)
  next
    case False
    with Pair show ?thesis
      by (auto simp: aws_set_def Let_def split: sum.splits)
  qed
qed

lemma aws_remove_surfaces:
  "fst (aws_remove cfg client key st) = Inl m \<longleftrightarrow>
     (\<exists>e. m = ''Failed to remove secret '' @ buildSecretName cfg key (serviceName cfg) @ '' from AWS: ''
              @ err_message e
         \<and> sendDeleteSecret client (p_calls st) (buildSecretName cfg key (serviceName cfg)) = Inl e)"
  by (auto simp: aws_remove_def Let_def split: sum.splits)

lemma aws_list_pages_forward:
  "sendListSecrets client (p_calls st) (projectName cfg) token = Inl e \<Longrightarrow>
     map_option fst (aws_list_pages (Suc fuel) cfg client token acc st)
       = Some (Inl (''Failed to list secrets from AWS: '' @ err_message e))"
  by (simp add: Let_def)

lemma aws_list_pages_backward:
  "aws_list_pages fuel cfg client token acc st = Some (Inl m, st') \<Longrightarrow>
     \<exists>e t. p_calls st' \<noteq> []
          \<and> last (p_calls st') = ListSecretsCommand (projectName cfg) t
          \<and> sendListSecrets client (butlast (p_calls st')) (projectName cfg) t = Inl e
          \<and> m = ''Failed to list secrets from AWS: '' @ err_message e"
proof (induction fuel arbitrary: token acc st)
  case 0
  then show ?case by simp
next
  case (Suc fuel)
  show ?case
  proof (cases "sendListSecrets client (p_calls st) (projectName cfg) token")
    case (Inl e)
    with Suc.prems have "m = ''Failed to list secrets from AWS: '' @ err_message e"
      and "p_calls st' = p_calls st @ [ListSecretsCommand (projectName cfg) token]"
      by (auto simp: Let_def aws_record_def)
    with Inl show ?thesis by auto
  next
    case (Inr page)
    obtain names next_token where page: "page = (names, next_token)" by (cases page)
    show ?thesis
    proof (cases "truthy next_token")
      case True
      with Suc.prems Inr page obtain acc' st1 where
        "aws_list_pages fuel cfg client next_token acc' st1 = Some (Inl m, st')"
        by (auto simp: Let_def)
      then show ?thesis by (rule Suc.IH)
    next
      case False
      with Suc.prems Inr page show ?thesis by (auto simp: Let_def)
    qed
  qed
qed

lemma azure_set_surfaces:
  "fst (azure_set cfg client key v md st) = Inl m \<longleftrightarrow>
     (\<exists>e. m = ''Failed to set secret '' @ azure_buildSecretName cfg key (serviceName cfg)
              @ '' in Azure: '' @ err_message e
         \<and> az_setSecret client (p_calls st) (azure_buildSecretName cfg key (serviceName cfg)) v
             (azure_buildTags cfg md) = Inl e)"
  by (auto simp: azure_set_def Let_def split: sum.splits)

lemma azure_remove_surfaces:
  "fst (azure_remove cfg client key st) = Inl m \<longleftrightarrow>
     (\<exists>e. m = ''Failed to remove secret '' @ azure_buildSecretName cfg key (serviceName cfg)
              @ '' from Azure: '' @ err_message e
         \<and> (az_beginDeleteSecret client (p_calls st)
               (azure_buildSecretName cfg key (serviceName cfg)) = Inl e
            \<or> az_beginDeleteSecret client (p_calls st)
                 (azure_buildSecretName cfg key (serviceName cfg)) = Inr ()
              \<and> az_pollUntilDone client
                  (p_calls st @ [AzBeginDeleteSecret (azure_buildSecretName cfg key (serviceName cfg))])
                  (azure_buildSecretName cfg key (serviceName cfg)) = Inl e))"
  by (auto simp: azure_remove_def azure_record_def Let_def split: sum.splits)

lemma azure_list_surfaces:
  "fst (azure_list cfg client st) = Inl m \<longleftrightarrow>
     (\<exists>e. m = ''Failed to list secrets from Azure: '' @ err_message e
         \<and> snd (az_listPropertiesOfSecrets client (p_calls st)) = Some e)"
  by (auto simp: azure_list_def Let_def split: prod.splits option.splits)

lemma fetch_swallows_errors:
  "accessSecretVersion gclient (p_calls gst)
       (''projects/'' @ gcpProjectId cfg @ ''/secrets/'' @ name @ ''/versions/latest'') = Inl e
     \<Longrightarrow> fst (fetchSecretFromGCP cfg gclient name gst) = None"
  "sendGetSecretValue aclient (p_calls ast) name = Inl e
     \<Longrightarrow> fst (fetchSecretFromAWS aclient name ast) = None"
  "az_getSecret zclient (p_calls zst) name = Inl e
     \<Longrightarrow> fst (fetchSecretFromAzure zclient name zst) = None"
  by (simp_all add: fetchSecretFromGCP_def fetchSecretFromAWS_def fetchSecretFromAzure_def Let_def)

text \<open>
  C4, amended. \<open>set\<close> and \<open>remove\<close> of each cloud provider surface exactly the errors of
  their write calls, each tied to the call that was made (its arguments and the calls
  before it): GCP \<open>createSecret\<close> (made only when the probe found nothing) and
  \<open>addSecretVersion\<close>, AWS \<open>CreateSecret\<close> or \<open>PutSecretValue\<close>, Azure \<open>setSecret\<close>; GCP
  \<open>deleteSecret\<close>, AWS \<open>DeleteSecret\<close>, Azure \<open>beginDeleteSecret\<close> and \<open>pollUntilDone\<close>.
  Every error of such a call surfaces, and every surfaced error is one of them, with the
  message \<open>Failed to set secret <name> in <provider>: \<close> or \<open>Failed to remove secret <name>
  from <provider>: \<close> followed by the store's own message: the message names the operation
  and the secret name, and the secret value is in it only where the name or the store's
  message holds it. The existence probe inside GCP and AWS \<open>set\<close> swallows the errors of
  \<open>getSecret\<close> and \<open>DescribeSecret\<close>: the secret counts as present exactly when one of the
  two probe calls succeeds. \<open>list\<close> surfaces every error of its store call, and only
  those, as \<open>Failed to list secrets from <provider>: \<close> and the store's message, naming the
  operation only; for AWS this holds for whichever page request fails, and the failing
  request is the last call recorded. \<open>get\<close> surfaces no store error: every error of a
  store read, a transport error as much as a not-found, is turned into null for that scope.
\<close>

theorem store_write_errors_wrapped_reads_and_probes_swallowed:
  "fst (gcp_exists cfg gclient key gst) =
      (\<not> isl (getSecret gclient (p_calls gst)
                 (''projects/'' @ gcpProjectId cfg @ ''/secrets/''
                  @ buildSecretName cfg key (serviceName cfg)))
       \<or> \<not> isl (getSecret gclient
                   (p_calls gst @ [GetSecret (''projects/'' @ gcpProjectId cfg @ ''/secrets/''
                                              @ buildSecretName cfg key (serviceName cfg))])
                   (''projects/'' @ gcpProjectId cfg @ ''/secrets/''
                    @ buildSecretName cfg key ''shared'')))
   \<and> (fst (gcp_set cfg gclient key v md gst) = Inl m \<longleftrightarrow>
      (\<exists>e. m = ''Failed to set secret '' @ buildSecretName cfg key (serviceName cfg) @ '' in GCP: ''
               @ err_message e
          \<and> (\<not> fst (gcp_exists cfg gclient key gst)
              \<and> createSecret gclient (p_calls (snd (gcp_exists cfg gclient key gst)))
                  (''projects/'' @ gcpProjectId cfg) (buildSecretName cfg key (serviceName cfg))
                  (gcp_buildLabels cfg md) = Inl e
             \<or> (fst (gcp_exists cfg gclient key gst)
                 \<or> createSecret gclient (p_calls (snd (gcp_exists cfg gclient key gst)))
                      (''projects/'' @ gcpProjectId cfg) (buildSecretName cfg key (serviceName cfg))
                      (gcp_buildLabels cfg md) = Inr ())
               \<and> addSecretVersion gclient
                   (if fst (gcp_exists cfg gclient key gst)
                    then p_calls (snd (gcp_exists cfg gclient key gst))
                    else p_calls (snd (gcp_exists cfg gclient key gst))
                         @ [CreateSecret (''projects/'' @ gcpProjectId cfg)
                              (buildSecretName cfg key (serviceName cfg)) (gcp_buildLabels cfg md)])
                   (''projects/'' @ gcpProjectId cfg @ ''/secrets/''
                    @ buildSecretName cfg key (serviceName cfg)) v = Inl e)))
   \<and> (fst (gcp_remove cfg gclient key gst) = Inl m \<longleftrightarrow>
      (\<exists>e. m = ''Failed to remove secret '' @ buildSecretName cfg key (serviceName cfg)
               @ '' from GCP: '' @ err_message e
          \<and> deleteSecret gclient (p_calls gst)
              (''projects/'' @ gcpProjectId cfg @ ''/secrets/''
               @ buildSecretName cfg key (serviceName cfg)) = Inl e))
   \<and> (fst (gcp_list cfg gclient gst) = Inl m \<longleftrightarrow>
      (\<exists>e. m = ''Failed to list secrets from GCP: '' @ err_message e
          \<and> listSecrets gclient (p_calls gst) (''projects/'' @ gcpProjectId cfg)
              (''labels.project-name='' @ projectName cfg) = Inl e))
   \<and> fst (aws_exists cfg aclient key ast) =
      (\<not> isl (sendDescribeSecret aclient (p_calls ast) (buildSecretName cfg key (serviceName cfg)))
       \<or> \<not> isl (sendDescribeSecret aclient
                   (p_calls ast @ [DescribeSecretCommand (buildSecretName cfg key (serviceName cfg))])
                   (buildSecretName cfg key ''shared'')))
   \<and> (fst (aws_set cfg aclient key v md ast) = Inl m \<longleftrightarrow>
      (\<exists>e. m = ''Failed to set secret '' @ buildSecretName cfg key (serviceName cfg) @ '' in AWS: ''
               @ err_message e
          \<and> (\<not> fst (aws_exists cfg aclient key ast)
              \<and> sendCreateSecret aclient (p_calls (snd (aws_exists cfg aclient key ast)))
                  (buildSecretName cfg key (serviceName cfg)) v (aws_buildTags cfg md) = Inl e
             \<or> fst (aws_exists cfg aclient key ast)
               \<and> sendPutSecretValue aclient (p_calls (snd (aws_exists cfg aclient key ast)))
                   (buildSecretName cfg key (serviceName cfg)) v = Inl e)))
   \<and> (fst (aws_remove cfg aclient key ast) = Inl m \<longleftrightarrow>
      (\<exists>e. m = ''Failed to remove secret '' @ buildSecretName cfg key (serviceName cfg)
               @ '' from AWS: '' @ err_message e
          \<and> sendDeleteSecret aclient (p_calls ast) (buildSecretName cfg key (serviceName cfg))
              = Inl e))
   \<and> (sendListSecrets aclient (p_calls ast) (projectName cfg) None = Inl err \<longrightarrow>
      map_option fst (aws_list (Suc fuel) cfg aclient ast)
        = Some (Inl (''Failed to list secrets from AWS: '' @ err_message err)))
   \<and> (sendListSecrets aclient (p_calls ast) (projectName cfg) token = Inl err \<longrightarrow>
      map_option fst (aws_list_pages (Suc fuel) cfg aclient token acc ast)
        = Some (Inl (''Failed to list secrets from AWS: '' @ err_message err)))
   \<and> (aws_list fuel cfg aclient ast = Some (Inl m, ast') \<longrightarrow>
      (\<exists>e t. p_calls ast' \<noteq> []
           \<and> last (p_calls ast') = ListSecretsCommand (projectName cfg) t
           \<and> sendListSecrets aclient (butlast (p_calls ast')) (projectName cfg) t = Inl e
           \<and> m = ''Failed to list secrets from AWS: '' @ err_message e))
   \<and> (fst (azure_set cfg zclient key v md zst) = Inl m \<longleftrightarrow>
      (\<exists>e. m = ''Failed to set secret '' @ azure_buildSecretName cfg key (serviceName cfg)
               @ '' in Azure: '' @ err_message e
          \<and> az_setSecret zclient (p_calls zst) (azure_buildSecretName cfg key (serviceName cfg)) v
              (azure_buildTags cfg md) = Inl e))
   \<and> (fst (azure_remove cfg zclient key zst) = Inl m \<longleftrightarrow>
      (\<exists>e. m = ''Failed to remove secret '' @ azure_buildSecretName cfg key (serviceName cfg)
               @ '' from Azure: '' @ err_message e
          \<and> (az_beginDeleteSecret zclient (p_calls zst)
                (azure_buildSecretName cfg key (serviceName cfg)) = Inl e
             \<or> az_beginDeleteSecret zclient (p_calls zst)
                  (azure_buildSecretName cfg key (serviceName cfg)) = Inr ()
               \<and> az_pollUntilDone zclient
                   (p_calls zst
                    @ [AzBeginDeleteSecret (azure_buildSecretName cfg key (serviceName cfg))])
                   (azure_buildSecretName cfg key (serviceName cfg)) = Inl e)))
   \<and> (fst (azure_list cfg zclient zst) = Inl m \<longleftrightarrow>
      (\<exists>e. m = ''Failed to list secrets from Azure: '' @ err_message e
          \<and> snd (az_listPropertiesOfSecrets zclient (p_calls zst)) = Some e))
   \<and> (accessSecretVersion gclient (p_calls gst)
         (''projects/'' @ gcpProjectId cfg @ ''/secrets/'' @ name @ ''/versions/latest'') = Inl err \<longrightarrow>
      fst (fetchSecretFromGCP cfg gclient name gst) = None)
   \<and> (sendGetSecretValue aclient (p_calls ast) name = Inl err \<longrightarrow>
      fst (fetchSecretFromAWS aclient name ast) = None)
   \<and> (az_getSecret zclient (p_calls zst) name = Inl err \<longrightarrow>
      fst (fetchSecretFromAzure zclient name zst) = None)"
proof -
  have list_first: "sendListSecrets aclient (p_calls ast) (projectName cfg) None = Inl err \<longrightarrow>
      map_option fst (aws_list (Suc fuel) cfg aclient ast)
        = Some (Inl (''Failed to list secrets from AWS: '' @ err_message err))"
    unfolding aws_list_def using aws_list_pages_forward by blast
  have list_page: "sendListSecrets aclient (p_calls ast) (projectName cfg) token = Inl err \<longrightarrow>
      map_option fst (aws_list_pages (Suc fuel) cfg aclient token acc ast)
        = Some (Inl (''Failed to list secrets from AWS: '' @ err_message err))"
    using aws_list_pages_forward by blast
  have list_back: "aws_list fuel cfg aclient ast = Some (Inl m, ast') \<longrightarrow>
      (\<exists>e t. p_calls ast' \<noteq> []
           \<and> last (p_calls ast') = ListSecretsCommand (projectName cfg) t
           \<and> sendListSecrets aclient (butlast (p_calls ast')) (projectName cfg) t = Inl e
           \<and> m = ''Failed to list secrets from AWS: '' @ err_message e)"
    unfolding aws_list_def using aws_list_pages_backward by blast
  have reads: "accessSecretVersion gclient (p_calls gst)
         (''projects/'' @ gcpProjectId cfg @ ''/secrets/'' @ name @ ''/versions/latest'') = Inl err \<longrightarrow>
      fst (fetchSecretFromGCP cfg gclient name gst) = None"
    "sendGetSecretValue aclient (p_calls ast) name = Inl err \<longrightarrow>
      fst (fetchSecretFromAWS aclient name ast) = None"
    "az_getSecret zclient (p_calls zst) name = Inl err \<longrightarrow>
      fst (fetchSecretFromAzure zclient name zst) = None"
    using fetch_swallows_errors by blast+
  show ?thesis
    by (intro conjI gcp_exists_probe gcp_set_surfaces gcp_remove_surfaces gcp_list_surfaces
          aws_exists_probe aws_set_surfaces aws_remove_surfaces list_first list_page list_back
          azure_set_surfaces azure_remove_surfaces azure_list_surfaces reads)
qed

theorem store_write_errors_wrapped_reads_and_probes_swallowed_witness:
  "\<not> fst (gcp_exists test_config gcp_unavailable_client ''DATABASE_URL'' fresh)
   \<and> fst (gcp_set test_config gcp_unavailable_client ''DATABASE_URL'' ''postgres-secret'' None fresh)
     = Inl ''Failed to set secret testproject-test-service-DATABASE_URL in GCP: UNAVAILABLE''
   \<and> fst (gcp_remove test_config gcp_unavailable_client ''DATABASE_URL'' fresh)
     = Inl ''Failed to remove secret testproject-test-service-DATABASE_URL from GCP: UNAVAILABLE''
   \<and> fst (gcp_list test_config gcp_unavailable_client fresh)
     = Inl ''Failed to list secrets from GCP: UNAVAILABLE''
   \<and> \<not> fst (aws_exists test_config aws_failing_client ''DATABASE_URL'' fresh)
   \<and> fst (aws_set test_config aws_failing_client ''DATABASE_URL'' ''postgres-secret'' None fresh)
     = Inl ''Failed to set secret testproject-test-service-DATABASE_URL in AWS: ThrottlingException''
   \<and> fst (aws_remove test_config aws_failing_client ''DATABASE_URL'' fresh)
     = Inl ''Failed to remove secret testproject-test-service-DATABASE_URL from AWS: ThrottlingException''
   \<and> sendListSecrets aws_failing_client (p_calls (fresh :: aws_state)) (projectName test_config) None
     = Inl \<lparr>err_code = None, err_message = ''ThrottlingException''\<rparr>
   \<and> map_option fst (aws_list (Suc 0) test_config aws_failing_client fresh)
     = Some (Inl ''Failed to list secrets from AWS: ThrottlingException'')
   \<and> aws_list (Suc 0) test_config aws_failing_client fresh
     = Some (Inl ''Failed to list secrets from AWS: ThrottlingException'',
             \<lparr>p_cache = Map.empty, p_calls = [ListSecretsCommand ''testproject'' None]\<rparr>)
   \<and> (\<exists>e t. last [ListSecretsCommand ''testproject'' None] = ListSecretsCommand ''testproject'' t
          \<and> sendListSecrets aws_failing_client (butlast [ListSecretsCommand ''testproject'' None])
                ''testproject'' t = Inl e
          \<and> ''Failed to list secrets from AWS: ThrottlingException''
              = ''Failed to list secrets from AWS: '' @ err_message e)
   \<and> fst (azure_set test_config azure_failing_client ''DATABASE_URL'' ''postgres-secret'' None fresh)
     = Inl ''Failed to set secret testproject-test-service-DATABASE-URL in Azure: Forbidden''
   \<and> fst (azure_remove test_config azure_failing_client ''DATABASE_URL'' fresh)
     = Inl ''Failed to remove secret testproject-test-service-DATABASE-URL from Azure: Forbidden''
   \<and> fst (azure_list test_config azure_failing_client fresh)
     = Inl ''Failed to list secrets from Azure: Forbidden''
   \<and> accessSecretVersion gcp_unavailable_client (p_calls (fresh :: gcp_state))
       (''projects/'' @ gcpProjectId test_config @ ''/secrets/''
        @ ''testproject-shared-DATABASE_URL'' @ ''/versions/latest'')
     = Inl \<lparr>err_code = Some 14, err_message = ''UNAVAILABLE''\<rparr>
   \<and> fst (fetchSecretFromGCP test_config gcp_unavailable_client ''testproject-shared-DATABASE_URL'' fresh)
     = None
   \<and> sendGetSecretValue aws_failing_client (p_calls (fresh :: aws_state)) ''testproject-shared-DATABASE_URL''
     = Inl \<lparr>err_code = None, err_message = ''ThrottlingException''\<rparr>
   \<and> fst (fetchSecretFromAWS aws_failing_client ''testproject-shared-DATABASE_URL'' fresh) = None
   \<and> az_getSecret azure_failing_client (p_calls (fresh :: azure_state)) ''testproject-shared-DATABASE-URL''
     = Inl \<lparr>err_code = None, err_message = ''Forbidden''\<rparr>
   \<and> fst (fetchSecretFromAzure azure_failing_client ''testproject-shared-DATABASE-URL'' fresh) = None"
proof -
  have g0: "\<not> fst (gcp_exists test_config gcp_unavailable_client ''DATABASE_URL'' fresh)"
    using store_write_errors_wrapped_reads_and_probes_swallowed
        [where cfg = test_config and gclient = gcp_unavailable_client
           and aclient = aws_failing_client and zclient = azure_failing_client
           and key = "''DATABASE_URL''" and v = "''postgres-secret''" and md = None
           and gst = fresh and ast = fresh and zst = fresh,
         THEN conjunct1]
    by (simp add: gcp_unavailable_client_def)
  have g1: "fst (gcp_set test_config gcp_unavailable_client ''DATABASE_URL'' ''postgres-secret'' None fresh)
     = Inl ''Failed to set secret testproject-test-service-DATABASE_URL in GCP: UNAVAILABLE''"
    by (rule store_write_errors_wrapped_reads_and_probes_swallowed
        [where cfg = test_config and gclient = gcp_unavailable_client
           and aclient = aws_failing_client and zclient = azure_failing_client
           and key = "''DATABASE_URL''" and v = "''postgres-secret''" and md = None
           and gst = fresh and ast = fresh and zst = fresh
           and m = "''Failed to set secret testproject-test-service-DATABASE_URL in GCP: UNAVAILABLE''",
         THEN conjunct2, THEN conjunct1, THEN iffD2],
        rule exI [of _ "\<lparr>err_code = Some 14, err_message = ''UNAVAILABLE''\<rparr>"])
       (simp add: gcp_exists_def gcp_unavailable_client_def eval_defs)
  have g2: "fst (gcp_remove test_config gcp_unavailable_client ''DATABASE_URL'' fresh)
     = Inl ''Failed to remove secret testproject-test-service-DATABASE_URL from GCP: UNAVAILABLE''"
    by (rule store_write_errors_wrapped_reads_and_probes_swallowed
        [where cfg = test_config and gclient = gcp_unavailable_client
           and aclient = aws_failing_client and zclient = azure_failing_client
           and key = "''DATABASE_URL''" and v = "''postgres-secret''" and md = None
           and gst = fresh and ast = fresh and zst = fresh
           and m = "''Failed to remove secret testproject-test-service-DATABASE_URL from GCP: UNAVAILABLE''",
         THEN conjunct2, THEN conjunct2, THEN conjunct1, THEN iffD2],
        rule exI [of _ "\<lparr>err_code = Some 14, err_message = ''UNAVAILABLE''\<rparr>"])
       (simp add: gcp_unavailable_client_def eval_defs)
  have g3: "fst (gcp_list test_config gcp_unavailable_client fresh)
     = Inl ''Failed to list secrets from GCP: UNAVAILABLE''"
    by (rule store_write_errors_wrapped_reads_and_probes_swallowed
        [where cfg = test_config and gclient = gcp_unavailable_client
           and aclient = aws_failing_client and zclient = azure_failing_client
           and key = "''DATABASE_URL''" and v = "''postgres-secret''" and md = None
           and gst = fresh and ast = fresh and zst = fresh
           and m = "''Failed to list secrets from GCP: UNAVAILABLE''",
         THEN conjunct2, THEN conjunct2, THEN conjunct2, THEN conjunct1, THEN iffD2],
        rule exI [of _ "\<lparr>err_code = Some 14, err_message = ''UNAVAILABLE''\<rparr>"])
       (simp add: gcp_unavailable_client_def eval_defs)
  have a0: "\<not> fst (aws_exists test_config aws_failing_client ''DATABASE_URL'' fresh)"
    using store_write_errors_wrapped_reads_and_probes_swallowed
        [where cfg = test_config and gclient = gcp_unavailable_client
           and aclient = aws_failing_client and zclient = azure_failing_client
           and key = "''DATABASE_URL''" and v = "''postgres-secret''" and md = None
           and gst = fresh and ast = fresh and zst = fresh,
         THEN conjunct2, THEN conjunct2, THEN conjunct2, THEN conjunct2, THEN conjunct1]
    by (simp add: aws_failing_client_def)
  have a1: "fst (aws_set test_config aws_failing_client ''DATABASE_URL'' ''postgres-secret'' None fresh)
     = Inl ''Failed to set secret testproject-test-service-DATABASE_URL in AWS: ThrottlingException''"
    by (rule store_write_errors_wrapped_reads_and_probes_swallowed
        [where cfg = test_config and gclient = gcp_unavailable_client
           and aclient = aws_failing_client and zclient = azure_failing_client
           and key = "''DATABASE_URL''" and v = "''postgres-secret''" and md = None
           and gst = fresh and ast = fresh and zst = fresh
           and m = "''Failed to set secret testproject-test-service-DATABASE_URL in AWS: ThrottlingException''",
         THEN conjunct2, THEN conjunct2, THEN conjunct2, THEN conjunct2, THEN conjunct2, THEN conjunct1, THEN iffD2],
        rule exI [of _ "\<lparr>err_code = None, err_message = ''ThrottlingException''\<rparr>"])
       (simp add: aws_exists_def aws_failing_client_def eval_defs)
  have a2: "fst (aws_remove test_config aws_failing_client ''DATABASE_URL'' fresh)
     = Inl ''Failed to remove secret testproject-test-service-DATABASE_URL from AWS: ThrottlingException''"
    by (rule store_write_errors_wrapped_reads_and_probes_swallowed
        [where cfg = test_config and gclient = gcp_unavailable_client
           and aclient = aws_failing_client and zclient = azure_failing_client
           and key = "''DATABASE_URL''" and v = "''postgres-secret''" and md = None
           and gst = fresh and ast = fresh and zst = fresh
           and m = "''Failed to remove secret testproject-test-service-DATABASE_URL from AWS: ThrottlingException''",
         THEN conjunct2, THEN conjunct2, THEN conjunct2, THEN conjunct2, THEN conjunct2, THEN conjunct2, THEN conjunct1, THEN iffD2],
        rule exI [of _ "\<lparr>err_code = None, err_message = ''ThrottlingException''\<rparr>"])
       (simp add: aws_failing_client_def eval_defs)
  have a3h: "sendListSecrets aws_failing_client (p_calls (fresh :: aws_state)) (projectName test_config) None
     = Inl \<lparr>err_code = None, err_message = ''ThrottlingException''\<rparr>"
    by (simp add: aws_failing_client_def)
  have a3: "map_option fst (aws_list (Suc 0) test_config aws_failing_client fresh)
     = Some (Inl ''Failed to list secrets from AWS: ThrottlingException'')"
    using store_write_errors_wrapped_reads_and_probes_swallowed
        [where cfg = test_config and gclient = gcp_unavailable_client
           and aclient = aws_failing_client and zclient = azure_failing_client
           and key = "''DATABASE_URL''" and v = "''postgres-secret''" and md = None
           and gst = fresh and ast = fresh and zst = fresh
           and fuel = 0 and err = "\<lparr>err_code = None, err_message = ''ThrottlingException''\<rparr>",
         THEN conjunct2, THEN conjunct2, THEN conjunct2, THEN conjunct2, THEN conjunct2, THEN conjunct2, THEN conjunct2, THEN conjunct1, THEN mp, OF a3h]
    by simp
  have a4h: "aws_list (Suc 0) test_config aws_failing_client fresh
     = Some (Inl ''Failed to list secrets from AWS: ThrottlingException'',
             \<lparr>p_cache = Map.empty, p_calls = [ListSecretsCommand ''testproject'' None]\<rparr>)"
    by (simp add: aws_list_def aws_failing_client_def eval_defs)
  have a4: "\<exists>e t. last [ListSecretsCommand ''testproject'' None] = ListSecretsCommand ''testproject'' t
          \<and> sendListSecrets aws_failing_client (butlast [ListSecretsCommand ''testproject'' None])
                ''testproject'' t = Inl e
          \<and> ''Failed to list secrets from AWS: ThrottlingException''
              = ''Failed to list secrets from AWS: '' @ err_message e"
    using store_write_errors_wrapped_reads_and_probes_swallowed
        [where cfg = test_config and gclient = gcp_unavailable_client
           and aclient = aws_failing_client and zclient = azure_failing_client
           and key = "''DATABASE_URL''" and v = "''postgres-secret''" and md = None
           and gst = fresh and ast = fresh and zst = fresh
           and fuel = "Suc 0" and m = "''Failed to list secrets from AWS: ThrottlingException''"
           and ast' = "\<lparr>p_cache = Map.empty, p_calls = [ListSecretsCommand ''testproject'' None]\<rparr>",
         THEN conjunct2, THEN conjunct2, THEN conjunct2, THEN conjunct2, THEN conjunct2, THEN conjunct2, THEN conjunct2, THEN conjunct2, THEN conjunct2, THEN conjunct1, THEN mp, OF a4h]
    by (simp add: test_config_def)
  have z1: "fst (azure_set test_config azure_failing_client ''DATABASE_URL'' ''postgres-secret'' None fresh)
     = Inl ''Failed to set secret testproject-test-service-DATABASE-URL in Azure: Forbidden''"
    by (rule store_write_errors_wrapped_reads_and_probes_swallowed
        [where cfg = test_config and gclient = gcp_unavailable_client
           and aclient = aws_failing_client and zclient = azure_failing_client
           and key = "''DATABASE_URL''" and v = "''postgres-secret''" and md = None
           and gst = fresh and ast = fresh and zst = fresh
           and m = "''Failed to set secret testproject-test-service-DATABASE-URL in Azure: Forbidden''",
         THEN conjunct2, THEN conjunct2, THEN conjunct2, THEN conjunct2, THEN conjunct2, THEN conjunct2, THEN conjunct2, THEN conjunct2, THEN conjunct2, THEN conjunct2, THEN conjunct1, THEN iffD2],
        rule exI [of _ "\<lparr>err_code = None, err_message = ''Forbidden''\<rparr>"])
       (simp add: azure_failing_client_def transformKey_def eval_defs)
  have z2: "fst (azure_remove test_config azure_failing_client ''DATABASE_URL'' fresh)
     = Inl ''Failed to remove secret testproject-test-service-DATABASE-URL from Azure: Forbidden''"
    by (rule store_write_errors_wrapped_reads_and_probes_swallowed
        [where cfg = test_config and gclient = gcp_unavailable_client
           and aclient = aws_failing_client and zclient = azure_failing_client
           and key = "''DATABASE_URL''" and v = "''postgres-secret''" and md = None
           and gst = fresh and ast = fresh and zst = fresh
           and m = "''Failed to remove secret testproject-test-service-DATABASE-URL from Azure: Forbidden''",
         THEN conjunct2, THEN conjunct2, THEN conjunct2, THEN conjunct2, THEN conjunct2, THEN conjunct2, THEN conjunct2, THEN conjunct2, THEN conjunct2, THEN conjunct2, THEN conjunct2, THEN conjunct1, THEN iffD2],
        rule exI [of _ "\<lparr>err_code = None, err_message = ''Forbidden''\<rparr>"])
       (simp add: azure_failing_client_def transformKey_def eval_defs)
  have z3: "fst (azure_list test_config azure_failing_client fresh)
     = Inl ''Failed to list secrets from Azure: Forbidden''"
    by (rule store_write_errors_wrapped_reads_and_probes_swallowed
        [where cfg = test_config and gclient = gcp_unavailable_client
           and aclient = aws_failing_client and zclient = azure_failing_client
           and key = "''DATABASE_URL''" and v = "''postgres-secret''" and md = None
           and gst = fresh and ast = fresh and zst = fresh
           and m = "''Failed to list secrets from Azure: Forbidden''",
         THEN conjunct2, THEN conjunct2, THEN conjunct2, THEN conjunct2, THEN conjunct2, THEN conjunct2, THEN conjunct2, THEN conjunct2, THEN conjunct2, THEN conjunct2, THEN conjunct2, THEN conjunct2, THEN conjunct1, THEN iffD2],
        rule exI [of _ "\<lparr>err_code = None, err_message = ''Forbidden''\<rparr>"])
       (simp add: azure_failing_client_def eval_defs)
  have f1h: "accessSecretVersion gcp_unavailable_client (p_calls (fresh :: gcp_state))
       (''projects/'' @ gcpProjectId test_config @ ''/secrets/''
        @ ''testproject-shared-DATABASE_URL'' @ ''/versions/latest'')
     = Inl \<lparr>err_code = Some 14, err_message = ''UNAVAILABLE''\<rparr>"
    by (simp add: gcp_unavailable_client_def)
  have f1: "fst (fetchSecretFromGCP test_config gcp_unavailable_client ''testproject-shared-DATABASE_URL'' fresh)
     = None"
    using store_write_errors_wrapped_reads_and_probes_swallowed
        [where cfg = test_config and gclient = gcp_unavailable_client
           and aclient = aws_failing_client and zclient = azure_failing_client
           and key = "''DATABASE_URL''" and v = "''postgres-secret''" and md = None
           and gst = fresh and ast = fresh and zst = fresh
           and name = "''testproject-shared-DATABASE_URL''" and err = "\<lparr>err_code = Some 14, err_message = ''UNAVAILABLE''\<rparr>",
         THEN conjunct2, THEN conjunct2, THEN conjunct2, THEN conjunct2, THEN conjunct2, THEN conjunct2, THEN conjunct2, THEN conjunct2, THEN conjunct2, THEN conjunct2, THEN conjunct2, THEN conjunct2, THEN conjunct2, THEN conjunct1, THEN mp, OF f1h] .
  have f2h: "sendGetSecretValue aws_failing_client (p_calls (fresh :: aws_state)) ''testproject-shared-DATABASE_URL''
     = Inl \<lparr>err_code = None, err_message = ''ThrottlingException''\<rparr>"
    by (simp add: aws_failing_client_def)
  have f2: "fst (fetchSecretFromAWS aws_failing_client ''testproject-shared-DATABASE_URL'' fresh) = None"
    using store_write_errors_wrapped_reads_and_probes_swallowed
        [where cfg = test_config and gclient = gcp_unavailable_client
           and aclient = aws_failing_client and zclient = azure_failing_client
           and key = "''DATABASE_URL''" and v = "''postgres-secret''" and md = None
           and gst = fresh and ast = fresh and zst = fresh
           and name = "''testproject-shared-DATABASE_URL''" and err = "\<lparr>err_code = None, err_message = ''ThrottlingException''\<rparr>",
         THEN conjunct2, THEN conjunct2, THEN conjunct2, THEN conjunct2, THEN conjunct2, THEN conjunct2, THEN conjunct2, THEN conjunct2, THEN conjunct2, THEN conjunct2, THEN conjunct2, THEN conjunct2, THEN conjunct2, THEN conjunct2, THEN conjunct1, THEN mp, OF f2h] .
  have f3h: "az_getSecret azure_failing_client (p_calls (fresh :: azure_state)) ''testproject-shared-DATABASE-URL''
     = Inl \<lparr>err_code = None, err_message = ''Forbidden''\<rparr>"
    by (simp add: azure_failing_client_def)
  have f3: "fst (fetchSecretFromAzure azure_failing_client ''testproject-shared-DATABASE-URL'' fresh) = None"
    using store_write_errors_wrapped_reads_and_probes_swallowed
        [where cfg = test_config and gclient = gcp_unavailable_client
           and aclient = aws_failing_client and zclient = azure_failing_client
           and key = "''DATABASE_URL''" and v = "''postgres-secret''" and md = None
           and gst = fresh and ast = fresh and zst = fresh
           and name = "''testproject-shared-DATABASE-URL''" and err = "\<lparr>err_code = None, err_message = ''Forbidden''\<rparr>",
         THEN conjunct2, THEN conjunct2, THEN conjunct2, THEN conjunct2, THEN conjunct2, THEN conjunct2, THEN conjunct2, THEN conjunct2, THEN conjunct2, THEN conjunct2, THEN conjunct2, THEN conjunct2, THEN conjunct2, THEN conjunct2, THEN conjunct2, THEN mp, OF f3h] .
  show ?thesis
    by (intro conjI g0 g1 g2 g3 a0 a1 a2 a3h a3 a4h a4 z1 z2 z3 f1h f1 f2h f2 f3h f3)
qed

subsection \<open>Cache expiry\<close>

text \<open>
  C5, as stated, fails in two places. A cloud provider still returns the cached value at
  \<open>now = expiresAt\<close> (the test is \<open>Date.now() > entry.expiresAt\<close>), here without asking a
  store that is down. The local provider does not evict: when the reload after expiry
  does not find the secret, \<open>get\<close> throws and the expired entry stays in the map.
\<close>

theorem expiry_boundary_and_local_eviction:
  "gcp_get test_config gcp_unavailable_client 300000 300000 ''CACHED_KEY'' holding
     = (Some ''cached-value'', holding)
   \<and> fst (local_get emptied_file 300000 300000 ''CACHED_KEY'' local_holding)
     = Inl ''Secret \"CACHED_KEY\" not found. Searched in service \"test-service\" and top-level secrets.''
   \<and> l_cache (snd (local_get emptied_file 300000 300000 ''CACHED_KEY'' local_holding))
         ''CACHED_KEY''
     = Some held_entry"
  by (simp add: gcp_get_def getFromCache_def holding_def held_entry_def local_get_def local_holding_def
        emptied_file_def loadSecretsFile_def stringAt_def truthy_def)

lemma getFromCache_live:
  "c key = Some entry \<Longrightarrow> now < ce_expiresAt entry
     \<Longrightarrow> getFromCache now key c = (Some (ce_value entry), c)"
  by (simp add: getFromCache_def)

lemma getFromCache_expired:
  "c key = Some entry \<Longrightarrow> ce_expiresAt entry < now
     \<Longrightarrow> getFromCache now key c = (None, c(key := None))"
  by (simp add: getFromCache_def)

lemma gcp_get_live:
  "p_cache st key = Some entry \<Longrightarrow> now < ce_expiresAt entry
     \<Longrightarrow> gcp_get cfg client now now' key st = (Some (ce_value entry), st)"
  by (simp add: gcp_get_def getFromCache_live)

lemma aws_get_live:
  "p_cache st key = Some entry \<Longrightarrow> now < ce_expiresAt entry
     \<Longrightarrow> aws_get cfg client now now' key st = (Some (ce_value entry), st)"
  by (simp add: aws_get_def getFromCache_live)

lemma azure_get_live:
  "p_cache st key = Some entry \<Longrightarrow> now < ce_expiresAt entry
     \<Longrightarrow> azure_get cfg client now now' key st = (Some (ce_value entry), st)"
  by (simp add: azure_get_def getFromCache_live)

lemma local_get_live:
  "l_cache st key = Some entry \<Longrightarrow> now < ce_expiresAt entry
     \<Longrightarrow> local_get on_disk now now' key st = (Inr (ce_value entry), st)"
  by (simp add: local_get_def)

lemma loadSecretsFile_cache: "loadSecretsFile (st\<lparr>l_cache := c\<rparr>) on_disk = loadSecretsFile st on_disk"
  by (cases "on_disk") (simp_all add: loadSecretsFile_def)

lemma local_get_expired_is_miss:
  "l_cache st key = Some entry \<Longrightarrow> ce_expiresAt entry \<le> now
     \<Longrightarrow> fst (local_get on_disk now now' key st)
         = fst (local_get on_disk now now' key (st\<lparr>l_cache := (l_cache st)(key := None)\<rparr>))"
  by (simp add: local_get_def loadSecretsFile_cache Let_def split: sum.splits)

lemma local_get_expired_found:
  "l_cache st key = Some entry \<Longrightarrow> ce_expiresAt entry \<le> now
     \<Longrightarrow> local_get on_disk now now' key st = (Inr v, st')
     \<Longrightarrow> l_cache st' key = Some \<lparr>ce_value = v, ce_expiresAt = now' + l_cacheTtl st\<rparr>"
  by (auto simp: local_get_def Let_def split: sum.splits if_splits)

lemma local_get_expired_not_found:
  "l_cache st key = Some entry \<Longrightarrow> ce_expiresAt entry \<le> now
     \<Longrightarrow> local_get on_disk now now' key st = (Inl msg, st')
     \<Longrightarrow> l_cache st' key = Some entry"
  by (auto simp: local_get_def Let_def split: sum.splits if_splits)

lemma local_new_ttl: "local_new path None on_disk = Inr st \<Longrightarrow> l_cacheTtl st = 60000"
  by (auto simp: local_new_def Let_def split: sum.splits)

lemma cloud_ttl:
  "\<not> isUrlValue v \<Longrightarrow> gcp_setCache now key v c key = Some \<lparr>ce_value = v, ce_expiresAt = now + 300000\<rparr>"
  "aws_setCache now key v c key = Some \<lparr>ce_value = v, ce_expiresAt = now + 300000\<rparr>"
  "azure_setCache now key v c key = Some \<lparr>ce_value = v, ce_expiresAt = now + 300000\<rparr>"
  by (simp_all add: gcp_setCache_def aws_setCache_def azure_setCache_def CACHE_TTL_MS_def)

text \<open>
  C5, amended. Cloud providers (entries expire 300000 ms after they are stored): a read
  at \<open>now < expiresAt\<close> returns the cached value and leaves the cache as it is, and \<open>get\<close>
  then returns it without a store call; a read at \<open>now > expiresAt\<close> is a miss and deletes
  the entry. Local provider (60000 ms unless the constructor is given another value): a
  read at \<open>now < expiresAt\<close> returns the cached value without reading the file; a read at
  \<open>now \<ge> expiresAt\<close> is a miss, answered from the file as if the entry were not there;
  the entry is not deleted: it is replaced by a fresh one when the secret is found and
  left in place when \<open>get\<close> throws.
\<close>

theorem cache_entry_visibility:
  "(c key = Some entry \<and> now < ce_expiresAt entry \<longrightarrow>
      getFromCache now key c = (Some (ce_value entry), c))
   \<and> (c key = Some entry \<and> ce_expiresAt entry < now \<longrightarrow>
      getFromCache now key c = (None, c(key := None)))
   \<and> (p_cache gst key = Some entry \<and> now < ce_expiresAt entry \<longrightarrow>
      gcp_get cfg gclient now now' key gst = (Some (ce_value entry), gst))
   \<and> (p_cache ast key = Some entry \<and> now < ce_expiresAt entry \<longrightarrow>
      aws_get cfg aclient now now' key ast = (Some (ce_value entry), ast))
   \<and> (p_cache zst key = Some entry \<and> now < ce_expiresAt entry \<longrightarrow>
      azure_get cfg zclient now now' key zst = (Some (ce_value entry), zst))
   \<and> (\<not> isUrlValue v \<longrightarrow>
      gcp_setCache now key v c key = Some \<lparr>ce_value = v, ce_expiresAt = now + 300000\<rparr>)
   \<and> aws_setCache now key v c key = Some \<lparr>ce_value = v, ce_expiresAt = now + 300000\<rparr>
   \<and> azure_setCache now key v c key = Some \<lparr>ce_value = v, ce_expiresAt = now + 300000\<rparr>
   \<and> (l_cache lst key = Some entry \<and> now < ce_expiresAt entry \<longrightarrow>
      local_get on_disk now now' key lst = (Inr (ce_value entry), lst))
   \<and> (l_cache lst key = Some entry \<and> ce_expiresAt entry \<le> now \<longrightarrow>
      fst (local_get on_disk now now' key lst)
        = fst (local_get on_disk now now' key (lst\<lparr>l_cache := (l_cache lst)(key := None)\<rparr>)))
   \<and> (l_cache lst key = Some entry \<and> ce_expiresAt entry \<le> now
        \<and> local_get on_disk now now' key lst = (Inr found, lst') \<longrightarrow>
      l_cache lst' key = Some \<lparr>ce_value = found, ce_expiresAt = now' + l_cacheTtl lst\<rparr>)
   \<and> (l_cache lst key = Some entry \<and> ce_expiresAt entry \<le> now
        \<and> local_get on_disk now now' key lst = (Inl msg, lst') \<longrightarrow>
      l_cache lst' key = Some entry)
   \<and> (local_new path None on_disk = Inr created \<longrightarrow> l_cacheTtl created = 60000)"
  by (intro conjI impI; (elim conjE)?)
     (simp_all add: getFromCache_live getFromCache_expired gcp_get_live aws_get_live azure_get_live
        cloud_ttl local_get_live local_new_ttl local_get_expired_found [where st' = lst']
        local_get_expired_not_found [where st' = lst'] local_get_expired_is_miss [where entry = entry])

theorem cache_entry_visibility_witness:
  "getFromCache 299999 ''CACHED_KEY'' (p_cache (holding :: gcp_state))
     = (Some ''cached-value'', p_cache (holding :: gcp_state))
   \<and> fst (getFromCache 300001 ''CACHED_KEY'' (p_cache (holding :: gcp_state))) = None
   \<and> snd (getFromCache 300001 ''CACHED_KEY'' (p_cache (holding :: gcp_state))) ''CACHED_KEY'' = None
   \<and> gcp_get test_config gcp_unavailable_client 299999 299999 ''CACHED_KEY'' holding
     = (Some ''cached-value'', holding)
   \<and> aws_get test_config aws_failing_client 299999 299999 ''CACHED_KEY'' holding
     = (Some ''cached-value'', holding)
   \<and> azure_get test_config azure_failing_client 299999 299999 ''CACHED_KEY'' holding
     = (Some ''cached-value'', holding)
   \<and> \<not> isUrlValue ''cached-value''
   \<and> gcp_setCache 0 ''CACHED_KEY'' ''cached-value'' (p_cache (fresh :: gcp_state)) ''CACHED_KEY''
     = Some held_entry
   \<and> local_get FileMissing 299999 299999 ''CACHED_KEY'' local_holding
     = (Inr ''cached-value'', local_holding)
   \<and> fst (local_get reloaded_file 300000 300005 ''CACHED_KEY'' local_holding) = Inr ''fresh-value''
   \<and> l_cache (snd (local_get reloaded_file 300000 300005 ''CACHED_KEY'' local_holding)) ''CACHED_KEY''
     = Some \<lparr>ce_value = ''fresh-value'', ce_expiresAt = 360005\<rparr>
   \<and> fst (local_get emptied_file 300000 300005 ''CACHED_KEY'' local_holding)
     = fst (local_get emptied_file 300000 300005 ''CACHED_KEY''
              (local_holding\<lparr>l_cache := (l_cache local_holding)(''CACHED_KEY'' := None)\<rparr>))
   \<and> l_cache (snd (local_get emptied_file 300000 300005 ''CACHED_KEY'' local_holding)) ''CACHED_KEY''
     = Some held_entry
   \<and> map_sum id l_cacheTtl (local_new ''/app/.secrets.local.json'' None reloaded_file) = Inr 60000"
proof -
  note T = cache_entry_visibility
             [where key = "''CACHED_KEY''" and entry = held_entry and cfg = test_config
                and gclient = gcp_unavailable_client and aclient = aws_failing_client
                and zclient = azure_failing_client and gst = holding and ast = holding
                and zst = holding and lst = local_holding]
  have v: "ce_value held_entry = ''cached-value''" "ce_expiresAt held_entry = 300000"
    by (simp_all add: held_entry_def)
  have h: "p_cache (holding :: gcp_state) ''CACHED_KEY'' = Some held_entry"
          "p_cache (holding :: aws_state) ''CACHED_KEY'' = Some held_entry"
          "p_cache (holding :: azure_state) ''CACHED_KEY'' = Some held_entry"
    by (simp_all add: holding_def)
  have l: "l_cache local_holding ''CACHED_KEY'' = Some held_entry" "l_cacheTtl local_holding = 60000"
    by (simp_all add: local_holding_def)
  have c1: "getFromCache 299999 ''CACHED_KEY'' (p_cache (holding :: gcp_state))
              = (Some ''cached-value'', p_cache (holding :: gcp_state))"
    using h v T [where c = "p_cache (holding :: gcp_state)" and now = 299999, THEN conjunct1]
    by simp
  have c2: "getFromCache 300001 ''CACHED_KEY'' (p_cache (holding :: gcp_state))
              = (None, (p_cache (holding :: gcp_state))(''CACHED_KEY'' := None))"
    using h v T [where c = "p_cache (holding :: gcp_state)" and now = 300001,
                 THEN conjunct2, THEN conjunct1]
    by simp
  have c3: "gcp_get test_config gcp_unavailable_client 299999 299999 ''CACHED_KEY'' holding
              = (Some ''cached-value'', holding)"
    using h v T [where now = 299999 and now' = 299999, THEN conjunct2, THEN conjunct2, THEN conjunct1]
    by simp
  have c4: "aws_get test_config aws_failing_client 299999 299999 ''CACHED_KEY'' holding
              = (Some ''cached-value'', holding)"
    using h v T [where now = 299999 and now' = 299999,
                 THEN conjunct2, THEN conjunct2, THEN conjunct2, THEN conjunct1]
    by simp
  have c5: "azure_get test_config azure_failing_client 299999 299999 ''CACHED_KEY'' holding
              = (Some ''cached-value'', holding)"
    using h v T [where now = 299999 and now' = 299999,
                 THEN conjunct2, THEN conjunct2, THEN conjunct2, THEN conjunct2, THEN conjunct1]
    by simp
  have u: "\<not> isUrlValue ''cached-value''"
    by (simp add: isUrlValue_def startsWith_def)
  have c6: "gcp_setCache 0 ''CACHED_KEY'' ''cached-value'' (p_cache (fresh :: gcp_state)) ''CACHED_KEY''
              = Some held_entry"
    using u T [where v = "''cached-value''" and now = 0 and c = "p_cache (fresh :: gcp_state)",
               THEN conjunct2, THEN conjunct2, THEN conjunct2, THEN conjunct2, THEN conjunct2,
               THEN conjunct1]
    by (simp add: held_entry_def)
  have c9: "local_get FileMissing 299999 299999 ''CACHED_KEY'' local_holding
              = (Inr ''cached-value'', local_holding)"
    using l v T [where now = 299999 and now' = 299999 and on_disk = FileMissing,
         THEN conjunct2, THEN conjunct2, THEN conjunct2, THEN conjunct2, THEN conjunct2, THEN conjunct2, THEN conjunct2, THEN conjunct2,
         THEN conjunct1]
    by simp
  have c10: "fst (local_get emptied_file 300000 300005 ''CACHED_KEY'' local_holding)
     = fst (local_get emptied_file 300000 300005 ''CACHED_KEY''
              (local_holding\<lparr>l_cache := (l_cache local_holding)(''CACHED_KEY'' := None)\<rparr>))"
    using l v T [where now = 300000 and now' = 300005 and on_disk = emptied_file,
         THEN conjunct2, THEN conjunct2, THEN conjunct2, THEN conjunct2, THEN conjunct2, THEN conjunct2, THEN conjunct2, THEN conjunct2,
         THEN conjunct2, THEN conjunct1]
    by simp
  have r: "fst (local_get reloaded_file 300000 300005 ''CACHED_KEY'' local_holding) = Inr ''fresh-value''"
    by (simp add: local_get_def local_holding_def held_entry_def reloaded_file_def loadSecretsFile_def
          stringAt_def truthy_def)
  obtain lst1 where r1: "local_get reloaded_file 300000 300005 ''CACHED_KEY'' local_holding
                          = (Inr ''fresh-value'', lst1)"
    using r by (cases "local_get reloaded_file 300000 300005 ''CACHED_KEY'' local_holding") auto
  have c11: "l_cache lst1 ''CACHED_KEY'' = Some \<lparr>ce_value = ''fresh-value'', ce_expiresAt = 360005\<rparr>"
    using l v r1 T [where now = 300000 and now' = 300005 and on_disk = reloaded_file
                      and found = "''fresh-value''" and lst' = lst1,
         THEN conjunct2, THEN conjunct2, THEN conjunct2, THEN conjunct2, THEN conjunct2, THEN conjunct2, THEN conjunct2, THEN conjunct2,
         THEN conjunct2, THEN conjunct2, THEN conjunct1]
    by simp
  obtain msg lst2 where r2: "local_get emptied_file 300000 300005 ''CACHED_KEY'' local_holding
                          = (Inl msg, lst2)"
    by (cases "local_get emptied_file 300000 300005 ''CACHED_KEY'' local_holding")
       (auto simp: local_get_def local_holding_def held_entry_def emptied_file_def loadSecretsFile_def
          stringAt_def truthy_def)
  have c12: "l_cache lst2 ''CACHED_KEY'' = Some held_entry"
    using l v r2 T [where now = 300000 and now' = 300005 and on_disk = emptied_file
                      and msg = msg and lst' = lst2,
         THEN conjunct2, THEN conjunct2, THEN conjunct2, THEN conjunct2, THEN conjunct2, THEN conjunct2, THEN conjunct2, THEN conjunct2,
         THEN conjunct2, THEN conjunct2, THEN conjunct2, THEN conjunct1]
    by simp
  obtain lst0 where n: "local_new ''/app/.secrets.local.json'' None reloaded_file = Inr lst0"
    by (simp add: local_new_def reloaded_file_def loadSecretsFile_def)
  have c13: "l_cacheTtl lst0 = 60000"
    using n T [where path = "''/app/.secrets.local.json''" and on_disk = reloaded_file and created = lst0,
         THEN conjunct2, THEN conjunct2, THEN conjunct2, THEN conjunct2, THEN conjunct2, THEN conjunct2, THEN conjunct2, THEN conjunct2,
         THEN conjunct2, THEN conjunct2, THEN conjunct2, THEN conjunct2]
    by simp
  show ?thesis using c1 c2 c3 c4 c5 u c6 c9 c10 r r1 c11 r2 c12 n c13 by simp
qed

end
